theory Spec2Isabelle
  imports Complex_Main "HOL-Library.Sublist" "HOL-Library.AList"
begin

unbundle bit_operations_syntax

section \<open>Errors\<close>

text \<open>
  Every raise of the Python sources and every runtime failure of a TensorFlow operation is a
  value of this type.  \<open>ValueError\<close> and \<open>TypeError\<close> are the two exceptions that
  \<^verbatim>\<open>filter_scrub_utils.py\<close> raises; \<open>KeyError\<close> is what a Python dictionary raises on a
  missing key (\<^verbatim>\<open>del example['filename']\<close>, \<^verbatim>\<open>example[key]\<close>) and
  \<open>AttributeError\<close> what Python raises on a missing attribute;
  \<open>InvalidArgumentError\<close> is TensorFlow's failure of an operation on unfit shapes or values.
  \<open>EmptyReduction\<close> is not an exception: it stands for the reduction of a batch of no
  examples along the batch axis, which \<^verbatim>\<open>Dataset.batch\<close> never produces.  \<open>OutsideSchema\<close> is no
  exception either: it stands for a field that is not the tensor its schema declares, where
  TensorFlow goes on with a tensor that the model does not represent.
\<close>

datatype error =
  ValueError | TypeError | KeyError | AttributeError | InvalidArgumentError
  | EmptyReduction | OutsideSchema

section \<open>Trimming and gain normalisation (\<^verbatim>\<open>pipeline.py\<close>)\<close>

text \<open>
  Audio samples are \<^verbatim>\<open>float32\<close> in the source and real numbers here: rounding is not
  modelled.  A one-dimensional tensor is a list.
\<close>

text \<open>
  Sizes and indices are \<^verbatim>\<open>int32\<close> tensors in the source (\<^verbatim>\<open>tf.shape\<close>, the draw of
  line 34, and the Python integer \<^verbatim>\<open>window_size\<close> wherever it meets one of them).  An
  \<^verbatim>\<open>int32\<close> holds its value modulo \<open>2^32\<close>, between \<open>-2^31\<close> and \<open>2^31 - 1\<close>; the
  wrap-around is written out at every operation.
\<close>

definition int32 :: "int \<Rightarrow> int" where
  "int32 x = (x + 2 ^ 31) mod 2 ^ 32 - 2 ^ 31"

text \<open>
  \<^verbatim>\<open>tf.random.uniform(shape=[], minval, maxval, dtype=tf.int32)\<close>: the integer
  distribution reduces the generator's random bits modulo the width of the range.  The random
  bits are an explicit argument.  TensorFlow rejects an empty range.
\<close>

definition random_uniform_int :: "nat \<Rightarrow> int \<Rightarrow> int \<Rightarrow> error + int" where
  "random_uniform_int bits minval maxval =
     (if minval < maxval then Inr (minval + int bits mod (maxval - minval))
      else Inl InvalidArgumentError)"

text \<open>
  \<^verbatim>\<open>tf.random.uniform([], minval, maxval)\<close> on floats: a draw \<open>u\<close> of the unit interval,
  scaled to the range.
\<close>

definition random_uniform_float :: "real \<Rightarrow> real \<Rightarrow> real \<Rightarrow> real" where
  "random_uniform_float u minval maxval = minval + u * (maxval - minval)"

text \<open>
  The slice \<^verbatim>\<open>t[begin:end]\<close> of a tensor: an index below zero counts from the end, and
  both indices are clamped to the tensor's length; nothing is padded.
\<close>

definition clamp_index :: "int \<Rightarrow> nat \<Rightarrow> nat" where
  "clamp_index i n = (let j = (if i < 0 then i + int n else i) in nat (max 0 (min j (int n))))"

definition strided_slice :: "'a list \<Rightarrow> int \<Rightarrow> int \<Rightarrow> 'a list" where
  "strided_slice t begin end =
     (let b = clamp_index begin (length t); e = clamp_index end (length t)
      in take (e - b) (drop b t))"

text \<open>\<^verbatim>\<open>tf.pad(t, [[0, pad_length]])\<close>: zeros on the right; a negative padding is rejected.\<close>

definition pad_right :: "real list \<Rightarrow> int \<Rightarrow> error + real list" where
  "pad_right t pad_length =
     (if pad_length < 0 then Inl InvalidArgumentError
      else Inr (t @ replicate (nat pad_length) 0))"

text \<open>\<^verbatim>\<open>tf.reshape(t, [n])\<close> of a one-dimensional tensor: the sizes must agree.\<close>

definition reshape1 :: "real list \<Rightarrow> int \<Rightarrow> error + real list" where
  "reshape1 t n = (if int (length t) = n then Inr t else Inl InvalidArgumentError)"

text \<open>\<^verbatim>\<open>tf.shape(t)[0]\<close>, an \<^verbatim>\<open>int32\<close>.\<close>

definition shape0 :: "'a list \<Rightarrow> int" where
  "shape0 t = int32 (int (length t))"

text \<open>
  \<^verbatim>\<open>_trim(audio, window_size)\<close>, lines 28 to 42, with the random bits of its one draw.
  The size asked of \<^verbatim>\<open>tf.reshape\<close> is the Python integer itself.
\<close>

definition trim :: "real list \<Rightarrow> int \<Rightarrow> nat \<Rightarrow> error + (real list \<times> int \<times> int)" where
  "trim audio window_size bits =
     (let max_start_index = int32 (shape0 audio - int32 window_size);
          max_start_index = max max_start_index 1
      in case random_uniform_int bits 0 max_start_index of
           Inl e \<Rightarrow> Inl e
         | Inr start_index \<Rightarrow>
             (let end_index = int32 (start_index + int32 window_size);
                  trimmed = strided_slice audio start_index
                              (int32 (start_index + int32 window_size));
                  pad_length = int32 (int32 window_size - shape0 trimmed)
              in case pad_right trimmed pad_length of
                   Inl e \<Rightarrow> Inl e
                 | Inr trimmed \<Rightarrow>
                     (case reshape1 trimmed window_size of
                        Inl e \<Rightarrow> Inl e
                      | Inr trimmed \<Rightarrow> Inr (trimmed, start_index, end_index))))"

text \<open>
  \<^verbatim>\<open>tf.reduce_max(t, axis=0, keepdims=True)\<close> of a one-dimensional tensor.  The result has
  shape \<open>[1]\<close>; the model carries its one entry.  The maximum of the empty tensor is
  \<open>-\<infinity>\<close>, so the result is a real number or \<open>-\<infinity>\<close>.
\<close>

datatype xreal = MinusInfinity | Finite real

fun reduce_max :: "real list \<Rightarrow> xreal" where
  "reduce_max [] = MinusInfinity"
| "reduce_max (x # xs) = Finite (fold max xs x)"

text \<open>
  Adding a number to such a value, and dividing a number by it: \<open>-\<infinity>\<close> stays
  \<open>-\<infinity>\<close> under addition, and a number divided by \<open>-\<infinity>\<close> is zero.
\<close>

fun xplus :: "xreal \<Rightarrow> real \<Rightarrow> xreal" where
  "xplus MinusInfinity c = MinusInfinity"
| "xplus (Finite x) c = Finite (x + c)"

fun xdivide :: "real \<Rightarrow> xreal \<Rightarrow> real" where
  "xdivide t MinusInfinity = 0"
| "xdivide t (Finite d) = t / d"

text \<open>
  \<^verbatim>\<open>_normalize_audio(audio, target_gain)\<close>, lines 45 to 51.  \<^verbatim>\<open>gain_scalar\<close> has shape
  \<open>[1]\<close> and is broadcast over the samples.
\<close>

definition normalize_audio :: "real list \<Rightarrow> real \<Rightarrow> real list \<times> real" where
  "normalize_audio audio target_gain =
     (let max_gain = reduce_max (map abs audio);
          gain_scalar = xdivide target_gain (xplus max_gain 0.01);
          audio = map (\<lambda>x. x * gain_scalar) audio
      in (audio, gain_scalar))"

section \<open>Examples after encoding, and batching\<close>

text \<open>
  A \<^verbatim>\<open>tf.data\<close> dataset has one element structure for all its elements.  After
  \<^verbatim>\<open>multi_hot\<close> the fields that the mixer and \<^verbatim>\<open>process_audio\<close> read and write are
  \<^verbatim>\<open>audio\<close>, \<^verbatim>\<open>source_audio\<close> and the five multi-hot fields.  The record is polymorphic
  in the tensor types, so that one record type serves an example (\<^verbatim>\<open>audio\<close> of shape
  \<open>[T]\<close>, \<^verbatim>\<open>source_audio\<close> of shape \<open>[S, T]\<close>, a multi-hot field of shape \<open>[V]\<close>) and
  a batch of examples (one more leading axis on every field).  Multi-hot entries are
  \<^verbatim>\<open>int32\<close>.
\<close>

record ('a, 's, 'l) example =
  audio :: 'a
  source_audio :: 's
  label :: 'l
  genus :: 'l
  family :: 'l
  order :: 'l
  bg_labels :: 'l

type_synonym single = "(real list, real list list, int list) example"

type_synonym batched = "(real list list, real list list list, int list list) example"

text \<open>
  Stacking the elements of a batch: every component must have the same shape in all of them,
  or \<^verbatim>\<open>Dataset.batch\<close> fails.
\<close>

definition same_on :: "('a \<Rightarrow> 'b) \<Rightarrow> 'a list \<Rightarrow> bool" where
  "same_on f xs = (case xs of [] \<Rightarrow> True | x # rest \<Rightarrow> list_all (\<lambda>y. f y = f x) rest)"

definition stackable :: "single list \<Rightarrow> bool" where
  "stackable rs \<longleftrightarrow>
     same_on (\<lambda>r. length (audio r)) rs \<and>
     same_on (\<lambda>r. map length (source_audio r)) rs \<and>
     same_on (\<lambda>r. length (label r)) rs \<and>
     same_on (\<lambda>r. length (genus r)) rs \<and>
     same_on (\<lambda>r. length (family r)) rs \<and>
     same_on (\<lambda>r. length (order r)) rs \<and>
     same_on (\<lambda>r. length (bg_labels r)) rs"

definition stack :: "single list \<Rightarrow> error + batched" where
  "stack rs =
     (if rs \<noteq> [] \<and> stackable rs then
        Inr \<lparr>audio = map audio rs, source_audio = map source_audio rs,
             label = map label rs, genus = map genus rs, family = map family rs,
             order = map order rs, bg_labels = map bg_labels rs\<rparr>
      else Inl InvalidArgumentError)"

text \<open>
  \<^verbatim>\<open>dataset.batch(n, drop_remainder=True)\<close> on a finite dataset: consecutive groups of
  \<open>n\<close> elements are stacked, and a last group of fewer than \<open>n\<close> elements is dropped.
\<close>

function batch :: "nat \<Rightarrow> single list \<Rightarrow> error + batched list" where
  "batch n ds =
     (if n = 0 then Inl InvalidArgumentError
      else if length ds < n then Inr []
      else (case stack (take n ds) of
              Inl e \<Rightarrow> Inl e
            | Inr b \<Rightarrow>
                (case batch n (drop n ds) of
                   Inl e \<Rightarrow> Inl e
                 | Inr bs \<Rightarrow> Inr (b # bs))))"
  by pat_completeness auto
termination
  by (relation "measure (\<lambda>(n, ds). length ds)") auto

text \<open>\<^verbatim>\<open>dataset.map(f)\<close> on a finite dataset; the first failure of \<open>f\<close> ends it.\<close>

fun map_dataset :: "('a \<Rightarrow> error + 'b) \<Rightarrow> 'a list \<Rightarrow> error + 'b list" where
  "map_dataset f [] = Inr []"
| "map_dataset f (x # xs) =
     (case f x of
        Inl e \<Rightarrow> Inl e
      | Inr y \<Rightarrow> (case map_dataset f xs of Inl e \<Rightarrow> Inl e | Inr ys \<Rightarrow> Inr (y # ys)))"

section \<open>The mixer (\<^verbatim>\<open>mix_audio\<close>)\<close>

text \<open>\<^verbatim>\<open>tf.zeros_like\<close> of a tensor of rank three.\<close>

definition zeros_like :: "real list list list \<Rightarrow> real list list list" where
  "zeros_like t = map (map (map (\<lambda>_. 0))) t"

text \<open>
  \<^verbatim>\<open>t[:, 0]\<close>: entry \<open>0\<close> along the second axis, for every entry of the first.  An empty
  second axis has no entry \<open>0\<close>.
\<close>

definition index_second_axis_0 :: "'a list list \<Rightarrow> error + 'a list" where
  "index_second_axis_0 t =
     (if list_all (\<lambda>m. m \<noteq> []) t then Inr (map hd t) else Inl InvalidArgumentError)"

text \<open>
  \<^verbatim>\<open>tf.reduce_max(t, axis=0)\<close> and \<^verbatim>\<open>tf.reduce_mean(t, axis=0)\<close> of a tensor of rank
  two: the rows are combined entry by entry.
\<close>

fun reduce_max_axis0 :: "int list list \<Rightarrow> error + int list" where
  "reduce_max_axis0 [] = Inl EmptyReduction"
| "reduce_max_axis0 (r # rs) = Inr (fold (\<lambda>row acc. map2 max acc row) rs r)"

fun reduce_mean_axis0 :: "real list list \<Rightarrow> error + real list" where
  "reduce_mean_axis0 [] = Inl EmptyReduction"
| "reduce_mean_axis0 (r # rs) =
     Inr (map (\<lambda>s. s / real (length (r # rs))) (fold (\<lambda>row acc. map2 (+) acc row) rs r))"

text \<open>
  \<^verbatim>\<open>_mix_audio(examples)\<close>, lines 78 to 94, on a batch.  \<^verbatim>\<open>examples['audio'].shape[0]\<close>
  is the size of the batch.
\<close>

definition mix_audio_inner :: "batched \<Rightarrow> error + single" where
  "mix_audio_inner examples =
     (let source_audio1 =
            (if length (source_audio examples) = 1
             then source_audio examples @ zeros_like (source_audio examples)
             else source_audio examples)
      in case index_second_axis_0 source_audio1 of
           Inl e \<Rightarrow> Inl e
         | Inr source_audio2 \<Rightarrow>
      (case reduce_max_axis0 (label examples) of
           Inl e \<Rightarrow> Inl e
         | Inr label1 \<Rightarrow>
      (case reduce_max_axis0 (genus examples) of
           Inl e \<Rightarrow> Inl e
         | Inr genus1 \<Rightarrow>
      (case reduce_max_axis0 (family examples) of
           Inl e \<Rightarrow> Inl e
         | Inr family1 \<Rightarrow>
      (case reduce_max_axis0 (order examples) of
           Inl e \<Rightarrow> Inl e
         | Inr order1 \<Rightarrow>
      (case reduce_max_axis0 (bg_labels examples) of
           Inl e \<Rightarrow> Inl e
         | Inr bg_labels1 \<Rightarrow>
      (let source_audio3 =
             map (map (\<lambda>x. x / real (length (audio examples)))) source_audio2
       in case reduce_mean_axis0 (audio examples) of
            Inl e \<Rightarrow> Inl e
          | Inr audio1 \<Rightarrow>
              Inr \<lparr>audio = audio1, source_audio = source_audio3,
                   label = label1, genus = genus1, family = family1,
                   order = order1, bg_labels = bg_labels1\<rparr>)))))))"

text \<open>\<^verbatim>\<open>key_func\<close>, line 70, with the uniform draw \<open>u\<close> of the unit interval.\<close>

definition key_func :: "real \<Rightarrow> real \<Rightarrow> int" where
  "key_func u mixin_prob = (if u < mixin_prob then 1 else 0)"

text \<open>\<^verbatim>\<open>reduce_func(key, dataset)\<close>, lines 72 to 76, on the dataset of one window.\<close>

definition reduce_func :: "int \<Rightarrow> single list \<Rightarrow> error + single list" where
  "reduce_func key dataset =
     (if key = 0 then
        (case batch 1 dataset of Inl e \<Rightarrow> Inl e | Inr bs \<Rightarrow> map_dataset mix_audio_inner bs)
      else
        (case batch 2 dataset of Inl e \<Rightarrow> Inl e | Inr bs \<Rightarrow> map_dataset mix_audio_inner bs))"

text \<open>
  \<^verbatim>\<open>dataset.group_by_window(key_func, reduce_func, window_size)\<close> on a finite dataset whose
  elements come with their keys.  Each key has a pending window; an element joins the window
  of its key, and a window that reaches \<open>window_size\<close> elements is reduced and its output
  emitted.  At the end of the input the pending windows that are not empty are reduced as they
  are.
\<close>

fun flush_windows ::
  "(int \<Rightarrow> 'a list \<Rightarrow> error + 'b list) \<Rightarrow> (int \<times> 'a list) list \<Rightarrow> error + 'b list" where
  "flush_windows reduce [] = Inr []"
| "flush_windows reduce ((k, w) # pending) =
     (case (if w = [] then Inr [] else reduce k w) of
        Inl e \<Rightarrow> Inl e
      | Inr out \<Rightarrow>
          (case flush_windows reduce pending of
             Inl e \<Rightarrow> Inl e
           | Inr outs \<Rightarrow> Inr (out @ outs)))"

definition window_of :: "(int \<times> 'a list) list \<Rightarrow> int \<Rightarrow> 'a list" where
  "window_of pending k = (case map_of pending k of None \<Rightarrow> [] | Some w \<Rightarrow> w)"

fun group_by_window_from ::
  "(int \<Rightarrow> 'a list \<Rightarrow> error + 'b list) \<Rightarrow> nat \<Rightarrow> (int \<times> 'a list) list \<Rightarrow> (int \<times> 'a) list
     \<Rightarrow> error + 'b list" where
  "group_by_window_from reduce window_size pending [] = flush_windows reduce pending"
| "group_by_window_from reduce window_size pending ((k, x) # rest) =
     (let w = window_of pending k @ [x] in
      if length w \<ge> window_size then
        (case reduce k w of
           Inl e \<Rightarrow> Inl e
         | Inr out \<Rightarrow>
             (case group_by_window_from reduce window_size (AList.update k [] pending) rest of
                Inl e \<Rightarrow> Inl e
              | Inr outs \<Rightarrow> Inr (out @ outs)))
      else group_by_window_from reduce window_size (AList.update k w pending) rest)"

text \<open>
  \<^verbatim>\<open>mix_audio(dataset, mixin_prob)\<close>, line 96; \<open>draws i\<close> is the uniform draw of
  \<^verbatim>\<open>key_func\<close> for element \<open>i\<close> of the dataset.
\<close>

definition mix_audio :: "(nat \<Rightarrow> real) \<Rightarrow> single list \<Rightarrow> real \<Rightarrow> error + single list" where
  "mix_audio draws dataset mixin_prob =
     group_by_window_from reduce_func 2 []
       (map (\<lambda>i. (key_func (draws i) mixin_prob, dataset ! i)) [0..<length dataset])"

section \<open>Processing an example (\<^verbatim>\<open>process_audio\<close>)\<close>

text \<open>
  The dataset information: \<^verbatim>\<open>info.features\<close> maps a field name to its feature.  The
  features that the pipeline tells apart are the audio feature with its sample rate, a class
  label with its number of classes, and a sequence of a feature.
\<close>

datatype feature = Audio int | Text | ClassLabel nat | Sequence feature | OtherFeature

record dataset_info =
  features :: "(string \<times> feature) list"

text \<open>
  \<^verbatim>\<open>process_audio(example, info, window_size_s, min_gain, max_gain)\<close>, lines 114 to 122, with
  the random bits of the crop and the unit draw of the gain.  The slice of
  \<^verbatim>\<open>source_audio\<close> is taken along the time axis of every row, and \<^verbatim>\<open>gain_scalar\<close> is
  broadcast over rows and samples.
\<close>

definition process_audio ::
  "single \<Rightarrow> dataset_info \<Rightarrow> int \<Rightarrow> real \<Rightarrow> real \<Rightarrow> nat \<Rightarrow> real \<Rightarrow> error + single" where
  "process_audio example info window_size_s min_gain max_gain bits u =
     (case map_of (features info) ''audio'' of
        None \<Rightarrow> Inl KeyError
      | Some (Audio sample_rate) \<Rightarrow>
          (case trim (audio example) (window_size_s * sample_rate) bits of
             Inl e \<Rightarrow> Inl e
           | Inr (audio1, start_ind, end_ind) \<Rightarrow>
               (let (audio2, gain_scalar) =
                      normalize_audio audio1 (random_uniform_float u min_gain max_gain)
                in Inr (example
                      \<lparr>audio := audio2,
                       source_audio :=
                         map (\<lambda>row. map (\<lambda>x. x * gain_scalar)
                                       (strided_slice row start_ind end_ind))
                             (source_audio example)\<rparr>)))
      | Some _ \<Rightarrow> Inl AttributeError)"

text \<open>
  What \<^verbatim>\<open>multi_hot\<close> establishes for the examples that reach the mixer: one source, which is
  the audio itself, and multi-hot fields whose entries are \<open>0\<close> or \<open>1\<close>.  Two examples of one
  dataset have fields of the same shapes.
\<close>

definition binary :: "int list \<Rightarrow> bool" where
  "binary v = list_all (\<lambda>b. b = 0 \<or> b = 1) v"

definition encoded :: "single \<Rightarrow> bool" where
  "encoded r \<longleftrightarrow>
     source_audio r = [audio r] \<and> binary (label r) \<and> binary (genus r) \<and> binary (family r) \<and>
     binary (order r) \<and> binary (bg_labels r)"

definition same_shapes :: "single \<Rightarrow> single \<Rightarrow> bool" where
  "same_shapes r1 r2 \<longleftrightarrow>
     length (audio r1) = length (audio r2) \<and> length (label r1) = length (label r2) \<and>
     length (genus r1) = length (genus r2) \<and> length (family r1) = length (family r2) \<and>
     length (order r1) = length (order r2) \<and> length (bg_labels r1) = length (bg_labels r2)"

text \<open>Two encoded examples with three classes of labels and two samples of audio.\<close>

definition example_a :: single where
  "example_a = \<lparr>audio = [2, 4], source_audio = [[2, 4]], label = [1, 0, 0], genus = [1, 0],
     family = [0], order = [1], bg_labels = [0, 0, 1]\<rparr>"

definition example_b :: single where
  "example_b = \<lparr>audio = [6, 0], source_audio = [[6, 0]], label = [0, 1, 0], genus = [1, 0],
     family = [1], order = [0], bg_labels = [1, 0, 0]\<rparr>"

section \<open>Multi-hot encoding (\<^verbatim>\<open>multi_hot\<close>)\<close>

text \<open>
  \<^verbatim>\<open>multi_hot\<close> works on the raw example, a dictionary from field names to tensors, and is
  driven by the features of the dataset.  The tensors of a raw example are a string, a
  sequence of class indices (\<^verbatim>\<open>int64\<close>), the audio, and the audio with a leading axis.
\<close>

datatype tensor = TString string | TInt1 "int list" | TFloat1 "real list" | TFloat2 "real list list"

type_synonym raw_example = "string \<rightharpoonup> tensor"

text \<open>\<^verbatim>\<open>del d[k]\<close>: a missing key raises \<^verbatim>\<open>KeyError\<close>.\<close>

definition del_item :: "raw_example \<Rightarrow> string \<Rightarrow> error + raw_example" where
  "del_item d k = (case d k of None \<Rightarrow> Inl KeyError | Some _ \<Rightarrow> Inr (d(k := None)))"

text \<open>
  \<^verbatim>\<open>tf.one_hot(indices, depth, dtype=tf.int32)\<close>: one row for every index, with a one at
  the index; an index outside \<open>[0, depth)\<close> gives a row of zeros.
\<close>

definition one_hot :: "int list \<Rightarrow> nat \<Rightarrow> int list list" where
  "one_hot indices depth = map (\<lambda>i. map (\<lambda>j. if i = int j then 1 else 0) [0..<depth]) indices"

text \<open>
  \<^verbatim>\<open>tf.reduce_sum(t, axis=0)\<close> of a tensor of shape \<open>[N, width]\<close>, which for \<open>N = 0\<close> is
  the zero vector of the width.
\<close>

definition reduce_sum_axis0 :: "nat \<Rightarrow> int list list \<Rightarrow> int list" where
  "reduce_sum_axis0 width rows = fold (\<lambda>row acc. map2 (+) acc row) rows (replicate width 0)"

text \<open>\<^verbatim>\<open>tf.clip_by_value(t, lo, hi)\<close>.\<close>

definition clip_by_value :: "int list \<Rightarrow> int \<Rightarrow> int \<Rightarrow> int list" where
  "clip_by_value t lo hi = map (\<lambda>x. min (max x lo) hi) t"

text \<open>The expression of lines 146 to 150.\<close>

definition multi_hot_vector :: "int list \<Rightarrow> nat \<Rightarrow> int list" where
  "multi_hot_vector indices num_classes =
     clip_by_value (reduce_sum_axis0 num_classes (one_hot indices num_classes)) 0 1"

text \<open>
  The body of the loop over \<^verbatim>\<open>info.features.items()\<close>, lines 144 to 150.
  \<^verbatim>\<open>tf.one_hot\<close> takes integer indices only.
\<close>

fun multi_hot_feature :: "raw_example \<Rightarrow> string \<times> feature \<Rightarrow> error + raw_example" where
  "multi_hot_feature example (key, Sequence (ClassLabel num_classes)) =
     (case example key of
        None \<Rightarrow> Inl KeyError
      | Some (TInt1 indices) \<Rightarrow>
          Inr (example(key \<mapsto> TInt1 (multi_hot_vector indices num_classes)))
      | Some _ \<Rightarrow> Inl TypeError)"
| "multi_hot_feature example (key, _) = Inr example"

fun multi_hot_loop :: "raw_example \<Rightarrow> (string \<times> feature) list \<Rightarrow> error + raw_example" where
  "multi_hot_loop example [] = Inr example"
| "multi_hot_loop example (item # items) =
     (case multi_hot_feature example item of
        Inl e \<Rightarrow> Inl e
      | Inr example \<Rightarrow> multi_hot_loop example items)"

text \<open>
  \<^verbatim>\<open>multi_hot(example, info)\<close>, lines 141 to 153.  The audio of the schema is a float
  waveform; for an \<^verbatim>\<open>audio\<close> field of another kind the model has no tensor with one more
  axis.
\<close>

definition multi_hot :: "raw_example \<Rightarrow> dataset_info \<Rightarrow> error + raw_example" where
  "multi_hot example info =
     (case del_item example ''filename'' of
        Inl e \<Rightarrow> Inl e
      | Inr example \<Rightarrow>
     (case del_item example ''label_str'' of
        Inl e \<Rightarrow> Inl e
      | Inr example \<Rightarrow>
     (case multi_hot_loop example (features info) of
        Inl e \<Rightarrow> Inl e
      | Inr example \<Rightarrow>
     (case example ''audio'' of
        None \<Rightarrow> Inl KeyError
      | Some (TFloat1 a) \<Rightarrow> Inr (example(''source_audio'' \<mapsto> TFloat2 [a]))
      | Some _ \<Rightarrow> Inl OutsideSchema))))"

text \<open>
  A raw example conforms to the features of its dataset when it has the two string fields and
  the audio, and every field declared as a sequence of class labels, which is none of
  \<^verbatim>\<open>filename\<close>, \<^verbatim>\<open>label_str\<close> and \<^verbatim>\<open>source_audio\<close>, holds class indices below the number
  of classes.  The features are a dictionary: no key occurs twice.
\<close>

definition class_indices :: "raw_example \<Rightarrow> string \<Rightarrow> nat \<Rightarrow> bool" where
  "class_indices example key num_classes =
     (case example key of
        Some (TInt1 indices) \<Rightarrow> list_all (\<lambda>i. 0 \<le> i \<and> i < int num_classes) indices
      | _ \<Rightarrow> False)"

fun conforms_feature :: "raw_example \<Rightarrow> string \<times> feature \<Rightarrow> bool" where
  "conforms_feature example (key, Sequence (ClassLabel num_classes)) =
     (key \<noteq> ''filename'' \<and> key \<noteq> ''label_str'' \<and> key \<noteq> ''source_audio'' \<and>
      class_indices example key num_classes)"
| "conforms_feature example (key, _) = True"

definition conforms :: "raw_example \<Rightarrow> dataset_info \<Rightarrow> bool" where
  "conforms example info \<longleftrightarrow>
     distinct (map fst (features info)) \<and>
     example ''filename'' \<noteq> None \<and> example ''label_str'' \<noteq> None \<and>
     (case example ''audio'' of Some (TFloat1 a) \<Rightarrow> True | _ \<Rightarrow> False) \<and>
     list_all (conforms_feature example) (features info)"

text \<open>A raw example and the features of its dataset.\<close>

definition raw_info :: dataset_info where
  "raw_info = \<lparr>features = [(''audio'', Audio 32000), (''filename'', Text),
      (''label'', Sequence (ClassLabel 3)), (''bg_labels'', Sequence (ClassLabel 4)),
      (''label_str'', Text)]\<rparr>"

definition raw_record :: raw_example where
  "raw_record = [''audio'' \<mapsto> TFloat1 [2, 4], ''filename'' \<mapsto> TString ''a.wav'',
      ''label'' \<mapsto> TInt1 [1], ''bg_labels'' \<mapsto> TInt1 [3, 0, 3], ''label_str'' \<mapsto> TString ''x'']"

section \<open>Filtering and scrubbing (\<^verbatim>\<open>filter_scrub_utils.py\<close>)\<close>

text \<open>
  The values of a feature dictionary: \<^verbatim>\<open>None\<close>, booleans, integers, floats (real numbers
  here), strings and lists of values.  NumPy arrays are not modelled, so that the test of
  line 66, a list or an array, is the test for a list.
\<close>

datatype pyval = PNone | PBool bool | PInt int | PFloat real | PStr string | PList "pyval list"

datatype pytype = NoneType | BoolType | IntType | FloatType | StrType | ListType

fun type_of :: "pyval \<Rightarrow> pytype" where
  "type_of PNone = NoneType"
| "type_of (PBool _) = BoolType"
| "type_of (PInt _) = IntType"
| "type_of (PFloat _) = FloatType"
| "type_of (PStr _) = StrType"
| "type_of (PList _) = ListType"

text \<open>\<^verbatim>\<open>isinstance(v, t)\<close>: \<^verbatim>\<open>bool\<close> is a subclass of \<^verbatim>\<open>int\<close>.\<close>

definition isinstance :: "pyval \<Rightarrow> pytype \<Rightarrow> bool" where
  "isinstance v t \<longleftrightarrow> type_of v = t \<or> (type_of v = BoolType \<and> t = IntType)"

text \<open>
  Python's \<^verbatim>\<open>==\<close>: booleans, integers and floats compare by their numeric value, lists
  entry by entry, and values of unrelated types are different.
\<close>

fun numeric :: "pyval \<Rightarrow> real option" where
  "numeric (PBool b) = Some (if b then 1 else 0)"
| "numeric (PInt i) = Some (real_of_int i)"
| "numeric (PFloat x) = Some x"
| "numeric _ = None"

fun py_eq :: "pyval \<Rightarrow> pyval \<Rightarrow> bool" where
  "py_eq (PList xs) (PList ys) = list_all2 py_eq xs ys"
| "py_eq PNone PNone = True"
| "py_eq (PStr s) (PStr t) = (s = t)"
| "py_eq a b = (case (numeric a, numeric b) of (Some x, Some y) \<Rightarrow> x = y | _ \<Rightarrow> False)"

text \<open>\<^verbatim>\<open>x in values\<close>.\<close>

definition py_in :: "pyval \<Rightarrow> pyval list \<Rightarrow> bool" where
  "py_in x values = list_ex (py_eq x) values"

type_synonym pydict = "string \<rightharpoonup> pyval"


text \<open>
  Dictionaries are objects: \<^verbatim>\<open>scrub\<close> returns either the dictionary it was given or a new
  one.  The heap is the list of the dictionaries allocated so far, and a reference is a
  position in it; \<^verbatim>\<open>feature_dict.copy()\<close> allocates the next position.
\<close>

type_synonym heap = "pydict list"

type_synonym ref = nat

definition copy :: "heap \<Rightarrow> ref \<Rightarrow> heap \<times> ref" where
  "copy h r = (h @ [h ! r], length h)"

definition setitem :: "heap \<Rightarrow> ref \<Rightarrow> string \<Rightarrow> pyval \<Rightarrow> heap" where
  "setitem h r key v = h[r := (h ! r)(key \<mapsto> v)]"

text \<open>
  \<^verbatim>\<open>scrub(feature_dict, key, values)\<close>, lines 64 to 81, on the heap and the reference of the
  dictionary; it returns the heap and the reference of its result.
\<close>

definition scrub :: "heap \<Rightarrow> ref \<Rightarrow> string \<Rightarrow> pyval list \<Rightarrow> error + (heap \<times> ref)" where
  "scrub h feature_dict key values =
     (case (h ! feature_dict) key of
        None \<Rightarrow> Inl ValueError
      | Some (PList xs) \<Rightarrow>
          if length values = 0 \<or> length xs = 0 then Inr (h, feature_dict)
          else
            (let data_type = type_of (xs ! 0)
             in if \<not> list_all (\<lambda>val. isinstance val data_type) values then Inl TypeError
                else
                  (let (h, new_feature_dict) = copy h feature_dict;
                       h = setitem h new_feature_dict key
                             (PList (filter (\<lambda>x. \<not> py_in x values) xs))
                   in Inr (h, new_feature_dict)))
      | Some _ \<Rightarrow> Inl ValueError)"

text \<open>A heap of one recording.\<close>

definition recording :: pydict where
  "recording = [''species'' \<mapsto> PStr ''amerob'',
      ''bg_species'' \<mapsto> PList [PStr ''x'', PStr ''y'', PStr ''x'', PStr ''z'', PStr ''y'']]"

section \<open>Properties of trimming and normalisation\<close>

lemma int32_id: "- (2 ^ 31) \<le> x \<Longrightarrow> x < 2 ^ 31 \<Longrightarrow> int32 x = x"
  by (simp add: int32_def)

lemma shape0_id: "int (length t) < 2 ^ 31 \<Longrightarrow> shape0 t = int (length t)"
  by (simp add: shape0_def int32_id)

lemma reduce_max_Max:
  assumes "xs \<noteq> []"
  shows "reduce_max xs = Finite (Max (set xs))"
proof (cases xs)
  case Nil
  then show ?thesis using assms by simp
next
  case (Cons a list)
  show ?thesis using Max.set_eq_fold [of a list] by (simp add: Cons)
qed

lemma clamp_index_nonneg: "0 \<le> i \<Longrightarrow> clamp_index i n = min (nat i) n"
  by (auto simp add: clamp_index_def Let_def min_def max_def; linarith)

lemma strided_slice_nonneg:
  "0 \<le> b \<Longrightarrow> 0 \<le> e \<Longrightarrow> strided_slice t b e = take (nat e - nat b) (drop (nat b) t)"
  by (auto simp add: strided_slice_def clamp_index_nonneg Let_def min_def)

lemma Max_abs_scale:
  fixes xs :: "real list"
  assumes "xs \<noteq> []"
  shows "Max (set (map abs (map (\<lambda>x. x * s) xs))) = \<bar>s\<bar> * Max (set (map abs xs))"
proof -
  have m: "mono (\<lambda>y::real. \<bar>s\<bar> * y)"
    by (rule monoI) (simp add: mult_left_mono)
  have "set (map abs (map (\<lambda>x. x * s) xs)) = (\<lambda>y. \<bar>s\<bar> * y) ` set (map abs xs)"
    by (auto simp add: abs_mult mult.commute image_iff)
  moreover have "Max ((\<lambda>y. \<bar>s\<bar> * y) ` set (map abs xs)) = \<bar>s\<bar> * Max (set (map abs xs))"
    using mono_Max_commute [OF m, of "set (map abs xs)"] assms by simp
  ultimately show ?thesis by simp
qed

lemma Max_abs_nonneg:
  fixes xs :: "real list"
  assumes "xs \<noteq> []"
  shows "0 \<le> Max (set (map abs xs))"
proof -
  have "\<bar>hd xs\<bar> \<in> set (map abs xs)" using assms by (cases xs) simp_all
  then have "\<bar>hd xs\<bar> \<le> Max (set (map abs xs))" by (intro Max_ge) simp_all
  then show ?thesis by linarith
qed

lemma trim_result:
  fixes audio :: "real list" and window_size :: int and bits :: nat
  assumes ws: "0 \<le> window_size" and wb: "window_size < 2 ^ 31"
    and lb: "int (length audio) < 2 ^ 31"
  defines "s \<equiv> int bits mod max (int (length audio) - window_size) 1"
  shows "trim audio window_size bits =
           Inr (take (nat window_size) (drop (nat s) audio)
                  @ replicate (nat window_size - (length audio - nat s)) 0,
                s, s + window_size)"
proof -
  let ?L = "int (length audio)"
  have w32: "int32 window_size = window_size"
    using ws wb by (simp add: int32_id)
  have n32: "shape0 audio = ?L"
    using lb by (rule shape0_id)
  have m32: "int32 (?L - window_size) = ?L - window_size"
    using ws wb lb by (intro int32_id) linarith+
  have s0: "0 \<le> s" and s1: "s < max (?L - window_size) 1"
    unfolding s_def by simp_all
  have e0: "0 \<le> s + window_size" using s0 ws by simp
  have e1: "s + window_size < 2 ^ 31"
    using s1 ws wb lb by (simp add: max_def split: if_splits)
  have e32: "int32 (s + window_size) = s + window_size"
    using e0 e1 by (intro int32_id) linarith+
  have sl: "strided_slice audio s (s + window_size) = take (nat window_size) (drop (nat s) audio)"
    using s0 ws by (simp add: strided_slice_nonneg nat_add_distrib)
  let ?t = "take (nat window_size) (drop (nat s) audio)"
  let ?p = "nat window_size - (length audio - nat s)"
  have lt: "length ?t = min (length audio - nat s) (nat window_size)"
    by simp
  have "int (length ?t) \<le> window_size"
    using ws by simp
  then have t32: "shape0 ?t = int (length ?t)"
    using wb by (intro shape0_id) linarith
  have pl: "window_size - int (length ?t) = int ?p"
    using ws unfolding lt by (simp add: min_def)
  have p32: "int32 (int ?p) = int ?p"
    using wb ws by (intro int32_id) linarith+
  have ru: "random_uniform_int bits 0 (max (?L - window_size) 1) = Inr s"
    by (simp add: random_uniform_int_def s_def)
  have pr: "pad_right ?t (int ?p) = Inr (?t @ replicate ?p 0)"
    by (simp add: pad_right_def)
  have ln: "int (length (?t @ replicate ?p 0)) = window_size"
    using ws by (simp add: min_def)
  have rs: "reshape1 (?t @ replicate ?p 0) window_size = Inr (?t @ replicate ?p 0)"
    unfolding reshape1_def using ln by simp
  show ?thesis
    by (simp only: trim_def Let_def w32 n32 m32 ru sum.case e32 sl t32 pl p32 pr rs)
qed

lemma trim_result_length:
  fixes audio :: "real list"
  assumes ws: "0 \<le> window_size"
  shows "length (take (nat window_size) (drop s audio)
                  @ replicate (nat window_size - (length audio - s)) 0) = nat window_size"
proof -
  have "int (length (take (nat window_size) (drop s audio)
                  @ replicate (nat window_size - (length audio - s)) 0)) = window_size"
    using ws by (simp add: min_def)
  then show ?thesis by linarith
qed

text \<open>A window size that no \<^verbatim>\<open>int32\<close> holds wraps around, and \<^verbatim>\<open>_trim\<close> fails.\<close>

lemma trim_beyond_int32: "trim [1] (2 ^ 31) bits = Inl InvalidArgumentError"
  by (simp add: trim_def int32_def shape0_def random_uniform_int_def strided_slice_def
      clamp_index_def pad_right_def Let_def)

lemma normalize_audio_snd:
  "normalize_audio t target_gain
     = (map (\<lambda>x. x * snd (normalize_audio t target_gain)) t,
        snd (normalize_audio t target_gain))"
  by (simp add: normalize_audio_def Let_def)

lemma normalize_audio_empty: "normalize_audio [] target_gain = ([], 0)"
  by (simp add: normalize_audio_def)

lemma normalize_audio_result:
  fixes audio :: "real list" and target_gain :: real
  assumes ne: "audio \<noteq> []"
  shows "normalize_audio audio target_gain =
           (map (\<lambda>x. x * (target_gain / (Max (set (map abs audio)) + 0.01))) audio,
            target_gain / (Max (set (map abs audio)) + 0.01))"
proof -
  have rm: "reduce_max (map abs audio) = Finite (Max (set (map abs audio)))"
    using ne by (simp add: reduce_max_Max)
  show ?thesis
    by (simp only: normalize_audio_def rm xplus.simps xdivide.simps Let_def)
qed

lemma normalize_audio_peak:
  fixes audio :: "real list" and target_gain :: real
  assumes ne: "audio \<noteq> []"
  shows "Max (set (map abs (fst (normalize_audio audio target_gain))))
           = \<bar>target_gain\<bar> * Max (set (map abs audio)) / (Max (set (map abs audio)) + 0.01)"
proof -
  define m where "m = Max (set (map abs audio))"
  define c where "c = target_gain / (m + 0.01)"
  have "0 \<le> m" unfolding m_def using ne by (rule Max_abs_nonneg)
  then have pos: "0 < m + 0.01" by simp
  have ac: "\<bar>c\<bar> = \<bar>target_gain\<bar> / (m + 0.01)"
    unfolding c_def using pos by (simp add: abs_divide)
  have "fst (normalize_audio audio target_gain) = map (\<lambda>x. x * c) audio"
    unfolding c_def m_def by (simp add: normalize_audio_result [OF ne])
  then have "Max (set (map abs (fst (normalize_audio audio target_gain))))
               = Max (set (map abs (map (\<lambda>x. x * c) audio)))"
    by (simp only:)
  also have "\<dots> = \<bar>c\<bar> * m"
    unfolding m_def using ne by (rule Max_abs_scale)
  also have "\<dots> = \<bar>target_gain\<bar> * m / (m + 0.01)"
    unfolding ac by simp
  finally show ?thesis unfolding m_def .
qed

text \<open>
  Claim C3.  For every audio sequence and every window size that \<^verbatim>\<open>int32\<close> holds (the
  window size is a sample count, \<open>0 \<le> window_size < 2^31\<close>, and the audio has fewer than
  \<open>2^31\<close> samples) and every random draw, \<^verbatim>\<open>_trim\<close> returns: a sequence of exactly
  \<open>window_size\<close> samples, which is the slice starting at \<open>start_index\<close> followed by zeros on
  the right when the slice is shorter; a \<open>start_index\<close> with
  \<open>0 \<le> start_index < max (L - window_size) 1\<close>; and \<open>end_index = start_index + window_size\<close>.
  When \<open>L \<le> window_size\<close> the start index is \<open>0\<close>.
\<close>

theorem trim_window:
  fixes audio :: "real list" and window_size :: int and bits :: nat
  assumes ws: "0 \<le> window_size" and wb: "window_size < 2 ^ 31"
    and lb: "int (length audio) < 2 ^ 31"
  defines "s \<equiv> int bits mod max (int (length audio) - window_size) 1"
  shows "trim audio window_size bits =
           Inr (take (nat window_size) (drop (nat s) audio)
                  @ replicate (nat window_size - (length audio - nat s)) 0,
                s, s + window_size)
         \<and> length (take (nat window_size) (drop (nat s) audio)
                  @ replicate (nat window_size - (length audio - nat s)) 0) = nat window_size
         \<and> 0 \<le> s \<and> s < max (int (length audio) - window_size) 1
         \<and> (int (length audio) \<le> window_size \<longrightarrow> s = 0)"
proof -
  have s0: "0 \<le> s" and s1: "s < max (int (length audio) - window_size) 1"
    unfolding s_def by simp_all
  have sl0: "int (length audio) \<le> window_size \<Longrightarrow> s = 0"
    unfolding s_def by (simp add: max_def)
  have tr: "trim audio window_size bits =
           Inr (take (nat window_size) (drop (nat s) audio)
                  @ replicate (nat window_size - (length audio - nat s)) 0,
                s, s + window_size)"
    unfolding s_def using ws wb lb by (rule trim_result)
  have ln: "length (take (nat window_size) (drop (nat s) audio)
                  @ replicate (nat window_size - (length audio - nat s)) 0) = nat window_size"
    using ws by (rule trim_result_length)
  from tr ln s0 s1 sl0 show ?thesis by blast
qed

theorem trim_window_witness:
  "(0::int) \<le> 4 \<and> (4::int) < 2 ^ 31 \<and> int (length [1, 2, 3 :: real]) < 2 ^ 31
   \<and> trim [1, 2, 3] 4 7 = Inr ([1, 2, 3, 0], 0, 4)"
proof -
  have h: "(0::int) \<le> 4" and b: "(4::int) < 2 ^ 31"
    and l: "int (length [1, 2, 3 :: real]) < 2 ^ 31" by simp_all
  have "trim [1, 2, 3] 4 7 = Inr ([1, 2, 3, 0], 0, 4)"
    using trim_window [OF h b l, of 7] by (simp add: numeral_eq_Suc)
  with h b l show ?thesis by blast
qed

text \<open>
  Claim C4.  For every audio sequence and every target gain, which is a peak absolute
  amplitude and so not negative, \<^verbatim>\<open>_normalize_audio\<close> returns \<open>(audio * scale, scale)\<close> with
  \<open>scale = target_gain / (max_gain + 0.01)\<close>, where \<open>max_gain\<close> is the largest absolute value
  of the input.  When the audio has a sample, the divisor is positive and the largest
  absolute value of the output is \<open>target_gain * max_gain / (max_gain + 0.01)\<close>.  The empty
  audio has the maximum \<open>-\<infinity>\<close> and the scale zero.  An all-zero input gives an all-zero
  output.
\<close>

theorem normalize_audio_scale:
  fixes audio :: "real list" and target_gain :: real
  assumes tg: "0 \<le> target_gain"
  defines "max_gain \<equiv> reduce_max (map abs audio)"
  defines "scale \<equiv> xdivide target_gain (xplus max_gain 0.01)"
  shows "normalize_audio audio target_gain = (map (\<lambda>x. x * scale) audio, scale)
         \<and> (audio \<noteq> [] \<longrightarrow>
               max_gain = Finite (Max (set (map abs audio)))
               \<and> scale = target_gain / (Max (set (map abs audio)) + 0.01)
               \<and> 0 < Max (set (map abs audio)) + 0.01
               \<and> Max (set (map abs (map (\<lambda>x. x * scale) audio)))
                   = target_gain * Max (set (map abs audio)) / (Max (set (map abs audio)) + 0.01))
         \<and> (audio = [] \<longrightarrow> max_gain = MinusInfinity \<and> scale = 0)
         \<and> ((\<forall>x \<in> set audio. x = 0) \<longrightarrow> (\<forall>y \<in> set (map (\<lambda>x. x * scale) audio). y = 0))"
proof -
  have na: "normalize_audio audio target_gain = (map (\<lambda>x. x * scale) audio, scale)"
    by (simp add: normalize_audio_def Let_def scale_def max_gain_def)
  have ne: "max_gain = Finite (Max (set (map abs audio)))
               \<and> scale = target_gain / (Max (set (map abs audio)) + 0.01)
               \<and> 0 < Max (set (map abs audio)) + 0.01
               \<and> Max (set (map abs (map (\<lambda>x. x * scale) audio)))
                   = target_gain * Max (set (map abs audio)) / (Max (set (map abs audio)) + 0.01)"
    if "audio \<noteq> []"
  proof -
    have mg: "max_gain = Finite (Max (set (map abs audio)))"
      unfolding max_gain_def using that by (simp add: reduce_max_Max)
    then have sc: "scale = target_gain / (Max (set (map abs audio)) + 0.01)"
      by (simp add: scale_def)
    have "0 \<le> Max (set (map abs audio))" using that by (rule Max_abs_nonneg)
    then have pos: "0 < Max (set (map abs audio)) + 0.01" by simp
    have "Max (set (map abs (map (\<lambda>x. x * scale) audio)))
            = \<bar>target_gain\<bar> * Max (set (map abs audio)) / (Max (set (map abs audio)) + 0.01)"
      using normalize_audio_peak [OF that, of target_gain] unfolding na by simp
    with tg have "Max (set (map abs (map (\<lambda>x. x * scale) audio)))
            = target_gain * Max (set (map abs audio)) / (Max (set (map abs audio)) + 0.01)"
      by simp
    with mg sc pos show ?thesis by blast
  qed
  have em: "max_gain = MinusInfinity \<and> scale = 0" if "audio = []"
    using that by (simp add: max_gain_def scale_def)
  have z: "(\<forall>x \<in> set audio. x = 0) \<longrightarrow> (\<forall>y \<in> set (map (\<lambda>x. x * scale) audio). y = 0)"
    by auto
  from na ne em z show ?thesis by blast
qed

theorem normalize_audio_scale_witness:
  "(0::real) \<le> 1
   \<and> normalize_audio [1, - 2] 1 = ([100 / 201, - (200 / 201)], 100 / 201)
   \<and> normalize_audio [0, 0] 1 = ([0, 0], 100)
   \<and> normalize_audio [] 1 = ([], 0)"
proof -
  have h: "(0::real) \<le> 1" by simp
  have a: "normalize_audio [1, - 2] 1 = ([100 / 201, - (200 / 201)], 100 / 201)"
    using normalize_audio_scale [OF h, of "[1, - 2]", THEN conjunct1] by simp
  have b: "normalize_audio [0, 0] 1 = ([0, 0], 100)"
    using normalize_audio_scale [OF h, of "[0, 0]", THEN conjunct1] by simp
  have c: "normalize_audio [] 1 = ([], 0)"
    using normalize_audio_scale [OF h, of "[]", THEN conjunct1] by simp
  from h a b c show ?thesis by blast
qed

section \<open>Properties of the mixer\<close>

lemma batch_Nil: "0 < n \<Longrightarrow> batch n [] = Inr []"
  by (subst batch.simps) simp

lemma batch_1_single: "batch 1 [r] = (case stack [r] of Inl e \<Rightarrow> Inl e | Inr b \<Rightarrow> Inr [b])"
  by (subst batch.simps) (simp add: batch_Nil split: sum.splits)

lemma batch_1_pair:
  "batch 1 [r1, r2] =
     (case stack [r1] of
        Inl e \<Rightarrow> Inl e
      | Inr b1 \<Rightarrow> (case stack [r2] of Inl e \<Rightarrow> Inl e | Inr b2 \<Rightarrow> Inr [b1, b2]))"
  by (subst batch.simps) (simp add: batch_1_single split: sum.splits)

lemma batch_2_single: "batch 2 [r] = Inr []"
  by (subst batch.simps) simp

lemma batch_2_pair:
  "batch 2 [r1, r2] = (case stack [r1, r2] of Inl e \<Rightarrow> Inl e | Inr b \<Rightarrow> Inr [b])"
  by (subst batch.simps) (simp add: batch_Nil split: sum.splits)

lemma stack_single:
  "stack [r] = Inr \<lparr>audio = [audio r], source_audio = [source_audio r], label = [label r],
     genus = [genus r], family = [family r], order = [order r], bg_labels = [bg_labels r]\<rparr>"
  by (simp add: stack_def stackable_def same_on_def)

lemma stack_pair:
  assumes "same_shapes r1 r2" and "map length (source_audio r1) = map length (source_audio r2)"
  shows "stack [r1, r2] = Inr \<lparr>audio = [audio r1, audio r2],
     source_audio = [source_audio r1, source_audio r2], label = [label r1, label r2],
     genus = [genus r1, genus r2], family = [family r1, family r2],
     order = [order r1, order r2], bg_labels = [bg_labels r1, bg_labels r2]\<rparr>"
  using assms by (simp add: stack_def stackable_def same_on_def same_shapes_def)

lemma max_binary: "(a = 0 \<or> a = 1) \<Longrightarrow> (b = 0 \<or> b = 1) \<Longrightarrow> max a b = a OR (b :: int)"
  by auto

lemma map2_max_binary:
  assumes "binary v" and "binary w"
  shows "map2 max v w = map2 (OR) v w"
proof -
  have "max a b = a OR b" if "(a, b) \<in> set (zip v w)" for a b
  proof -
    from that have "a \<in> set v" and "b \<in> set w"
      by (auto dest: set_zip_leftD set_zip_rightD)
    with assms have "a = 0 \<or> a = 1" and "b = 0 \<or> b = 1"
      by (simp_all add: binary_def list_all_iff)
    then show ?thesis by (rule max_binary)
  qed
  then show ?thesis by auto
qed


lemma mix_audio_inner_pair:
  "mix_audio_inner \<lparr>audio = [a1, a2], source_audio = [[s1], [s2]], label = [l1, l2],
       genus = [g1, g2], family = [f1, f2], order = [o1, o2], bg_labels = [b1, b2]\<rparr>
   = Inr \<lparr>audio = map2 (\<lambda>x y. (x + y) / 2) a1 a2,
          source_audio = [map (\<lambda>x. x / 2) s1, map (\<lambda>x. x / 2) s2],
          label = map2 max l1 l2, genus = map2 max g1 g2, family = map2 max f1 f2,
          order = map2 max o1 o2, bg_labels = map2 max b1 b2\<rparr>"
  by (auto simp add: mix_audio_inner_def index_second_axis_0_def Let_def)

lemma mix_audio_inner_single:
  "mix_audio_inner \<lparr>audio = [a], source_audio = [[s]], label = [l],
       genus = [g], family = [f], order = [d], bg_labels = [b]\<rparr>
   = Inr \<lparr>audio = a, source_audio = [s, replicate (length s) 0],
          label = l, genus = g, family = f, order = d, bg_labels = b\<rparr>"
  by (simp add: mix_audio_inner_def index_second_axis_0_def zeros_like_def Let_def
      map_replicate_const)

lemma reduce_func_pair:
  assumes "key \<noteq> 0" and "same_shapes r1 r2"
    and "source_audio r1 = [s1]" and "source_audio r2 = [s2]" and "length s1 = length s2"
  shows "reduce_func key [r1, r2] =
     Inr [\<lparr>audio = map2 (\<lambda>x y. (x + y) / 2) (audio r1) (audio r2),
           source_audio = [map (\<lambda>x. x / 2) s1, map (\<lambda>x. x / 2) s2],
           label = map2 max (label r1) (label r2), genus = map2 max (genus r1) (genus r2),
           family = map2 max (family r1) (family r2), order = map2 max (order r1) (order r2),
           bg_labels = map2 max (bg_labels r1) (bg_labels r2)\<rparr>]"
proof -
  have "map length (source_audio r1) = map length (source_audio r2)"
    using assms by simp
  then have "stack [r1, r2] = Inr \<lparr>audio = [audio r1, audio r2],
     source_audio = [[s1], [s2]], label = [label r1, label r2],
     genus = [genus r1, genus r2], family = [family r1, family r2],
     order = [order r1, order r2], bg_labels = [bg_labels r1, bg_labels r2]\<rparr>"
    using stack_pair [of r1 r2] assms by simp
  then show ?thesis
    using assms(1) by (simp add: reduce_func_def batch_2_pair mix_audio_inner_pair)
qed

lemma reduce_func_single:
  assumes "source_audio r = [s]"
  shows "reduce_func 0 [r] =
     Inr [\<lparr>audio = audio r, source_audio = [s, replicate (length s) 0],
           label = label r, genus = genus r, family = family r, order = order r,
           bg_labels = bg_labels r\<rparr>]"
  using assms
  by (simp add: reduce_func_def batch_1_single stack_single mix_audio_inner_single)

lemma reduce_func_lone: "key \<noteq> 0 \<Longrightarrow> reduce_func key [r] = Inr []"
  by (simp add: reduce_func_def batch_2_single)

text \<open>
  \<^verbatim>\<open>group_by_window\<close> collects two records in the window of key \<open>0\<close> as well; the reducer
  batches them by one, so that each is one batch and comes out as a record of its own.
\<close>

lemma reduce_func_unmixed_pair:
  assumes "source_audio r1 = [s1]" and "source_audio r2 = [s2]"
  shows "reduce_func 0 [r1, r2] =
     Inr [\<lparr>audio = audio r1, source_audio = [s1, replicate (length s1) 0],
           label = label r1, genus = genus r1, family = family r1, order = order r1,
           bg_labels = bg_labels r1\<rparr>,
          \<lparr>audio = audio r2, source_audio = [s2, replicate (length s2) 0],
           label = label r2, genus = genus r2, family = family r2, order = order r2,
           bg_labels = bg_labels r2\<rparr>]"
  using assms
  by (simp add: reduce_func_def batch_1_pair stack_single mix_audio_inner_single)

lemma encoded_example_a: "encoded example_a"
  by (simp add: encoded_def example_a_def binary_def)

lemma encoded_example_b: "encoded example_b"
  by (simp add: encoded_def example_b_def binary_def)

lemma same_shapes_examples: "same_shapes example_a example_b"
  by (simp add: same_shapes_def example_a_def example_b_def)

text \<open>
  Claim C1.  A window is the group of one or two records that the reducer combines into one
  output record, that is, one batch given to \<^verbatim>\<open>_mix_audio\<close>.  For two encoded records of
  the same shapes, batched by two on the mixing path, the output has every multi-hot field
  equal to the bitwise OR of the two inputs' fields, entry by entry, its audio equal to the
  mean of the two audios, entry by entry, and the two rows of \<^verbatim>\<open>source_audio\<close> equal to the
  first audio divided by two and the second audio divided by two.  For one record, batched by
  one, the second row of \<^verbatim>\<open>source_audio\<close> is all zero and every multi-hot field is the
  input's field.
\<close>

theorem mixer_window_output:
  assumes "encoded r1" and "encoded r2" and "same_shapes r1 r2" and "key \<noteq> 0"
  shows "reduce_func key [r1, r2] =
           Inr [\<lparr>audio = map2 (\<lambda>x y. (x + y) / 2) (audio r1) (audio r2),
                 source_audio = [map (\<lambda>x. x / 2) (audio r1), map (\<lambda>x. x / 2) (audio r2)],
                 label = map2 (OR) (label r1) (label r2),
                 genus = map2 (OR) (genus r1) (genus r2),
                 family = map2 (OR) (family r1) (family r2),
                 order = map2 (OR) (order r1) (order r2),
                 bg_labels = map2 (OR) (bg_labels r1) (bg_labels r2)\<rparr>]
         \<and> (\<exists>m. reduce_func 0 [r1] = Inr [m]
                \<and> source_audio m ! 1 = replicate (length (audio r1)) 0
                \<and> length (source_audio m) = 2
                \<and> label m = label r1 \<and> genus m = genus r1 \<and> family m = family r1
                \<and> order m = order r1 \<and> bg_labels m = bg_labels r1)"
proof -
  have s1: "source_audio r1 = [audio r1]" and s2: "source_audio r2 = [audio r2]"
    using assms(1,2) by (simp_all add: encoded_def)
  have len: "length (audio r1) = length (audio r2)"
    using assms(3) by (simp add: same_shapes_def)
  have b: "binary (label r1)" "binary (label r2)" "binary (genus r1)" "binary (genus r2)"
    "binary (family r1)" "binary (family r2)" "binary (order r1)" "binary (order r2)"
    "binary (bg_labels r1)" "binary (bg_labels r2)"
    using assms(1,2) by (simp_all add: encoded_def)
  have pair: "reduce_func key [r1, r2] =
           Inr [\<lparr>audio = map2 (\<lambda>x y. (x + y) / 2) (audio r1) (audio r2),
                 source_audio = [map (\<lambda>x. x / 2) (audio r1), map (\<lambda>x. x / 2) (audio r2)],
                 label = map2 (OR) (label r1) (label r2),
                 genus = map2 (OR) (genus r1) (genus r2),
                 family = map2 (OR) (family r1) (family r2),
                 order = map2 (OR) (order r1) (order r2),
                 bg_labels = map2 (OR) (bg_labels r1) (bg_labels r2)\<rparr>]"
    unfolding reduce_func_pair [OF assms(4) assms(3) s1 s2 len]
    by (simp only: map2_max_binary b)
  have single: "\<exists>m. reduce_func 0 [r1] = Inr [m]
                \<and> source_audio m ! 1 = replicate (length (audio r1)) 0
                \<and> length (source_audio m) = 2
                \<and> label m = label r1 \<and> genus m = genus r1 \<and> family m = family r1
                \<and> order m = order r1 \<and> bg_labels m = bg_labels r1"
    unfolding reduce_func_single [OF s1] by simp
  from pair single show ?thesis by (rule conjI)
qed

theorem mixer_window_output_witness:
  "encoded example_a \<and> encoded example_b \<and> same_shapes example_a example_b \<and> (1::int) \<noteq> 0
   \<and> reduce_func 1 [example_a, example_b] =
         Inr [\<lparr>audio = [4, 2], source_audio = [[1, 2], [3, 0]], label = [1, 1, 0],
               genus = [1, 0], family = [1], order = [1], bg_labels = [1, 0, 1]\<rparr>]"
proof -
  have k: "(1::int) \<noteq> 0" by simp
  have "reduce_func 1 [example_a, example_b] =
         Inr [\<lparr>audio = [4, 2], source_audio = [[1, 2], [3, 0]], label = [1, 1, 0],
               genus = [1, 0], family = [1], order = [1], bg_labels = [1, 0, 1]\<rparr>]"
    using mixer_window_output [OF encoded_example_a encoded_example_b same_shapes_examples k,
        THEN conjunct1]
    by (simp add: example_a_def example_b_def)
  with encoded_example_a encoded_example_b same_shapes_examples k show ?thesis by simp
qed

text \<open>
  Claim C2, as the code has it.  The reducer divides \<^verbatim>\<open>source_audio\<close> by the number of
  records in the batch, \<^verbatim>\<open>examples['audio'].shape[0]\<close>: by two for a pair, and by one for
  a singleton, whose source row is left as it is next to the row of zeros.  In both cases the
  rows sum to the mixed audio.
\<close>

theorem mixer_source_audio_scale:
  assumes "source_audio r1 = [s1]" and "source_audio r2 = [s2]" and "length s1 = length s2"
    and "same_shapes r1 r2" and "key \<noteq> 0"
  shows "(\<exists>m. reduce_func key [r1, r2] = Inr [m]
            \<and> source_audio m = map (map (\<lambda>x. x / real (length [r1, r2]))) [s1, s2])
       \<and> (\<exists>m. reduce_func 0 [r1] = Inr [m]
            \<and> source_audio m
                = map (map (\<lambda>x. x / real (length [r1]))) [s1, replicate (length s1) 0])"
proof -
  have "\<exists>m. reduce_func key [r1, r2] = Inr [m]
            \<and> source_audio m = map (map (\<lambda>x. x / real (length [r1, r2]))) [s1, s2]"
    unfolding reduce_func_pair [OF assms(5) assms(4) assms(1) assms(2) assms(3)] by simp
  moreover have "\<exists>m. reduce_func 0 [r1] = Inr [m]
            \<and> source_audio m
                = map (map (\<lambda>x. x / real (length [r1]))) [s1, replicate (length s1) 0]"
    unfolding reduce_func_single [OF assms(1)] by simp
  ultimately show ?thesis by (rule conjI)
qed

theorem mixer_source_audio_scale_witness:
  "source_audio example_a = [[2, 4]] \<and> source_audio example_b = [[6, 0]]
   \<and> length [2, 4 :: real] = length [6, 0 :: real] \<and> same_shapes example_a example_b
   \<and> (1::int) \<noteq> 0
   \<and> (\<exists>m. reduce_func 1 [example_a, example_b] = Inr [m]
          \<and> source_audio m = [[1, 2], [3, 0]])
   \<and> (\<exists>m. reduce_func 0 [example_a] = Inr [m] \<and> source_audio m = [[2, 4], [0, 0]])"
proof -
  have a: "source_audio example_a = [[2, 4]]" and b: "source_audio example_b = [[6, 0]]"
    by (simp_all add: example_a_def example_b_def)
  have l: "length [2, 4 :: real] = length [6, 0 :: real]" and k: "(1::int) \<noteq> 0" by simp_all
  show ?thesis
    using mixer_source_audio_scale [OF a b l same_shapes_examples k] a b same_shapes_examples
    by (simp add: numeral_2_eq_2)
qed

text \<open>
  On the singleton path the source row is not divided by two: the record with audio \<open>[2, 4]\<close>
  comes out with the source rows \<open>[2, 4]\<close> and \<open>[0, 0]\<close>.
\<close>

theorem mixer_singleton_not_halved_counterexample:
  "reduce_func 0 [example_a] =
     Inr [\<lparr>audio = [2, 4], source_audio = [[2, 4], [0, 0]], label = [1, 0, 0], genus = [1, 0],
           family = [0], order = [1], bg_labels = [0, 0, 1]\<rparr>]
   \<and> [[2, 4], [0, 0]] \<noteq> map (map (\<lambda>x. x / 2)) [[2, 4], [0, 0 :: real]]"
proof -
  have "source_audio example_a = [[2, 4]]"
    by (simp add: example_a_def)
  from reduce_func_single [OF this] show ?thesis
    by (simp add: example_a_def)
qed

text \<open>
  Claim C10.  On the mixing path (a key other than \<open>0\<close>) a window that holds a single record
  produces no output record and no error: batching by two with \<^verbatim>\<open>drop_remainder=True\<close>
  drops it.  A stream of one record whose key is \<open>1\<close> comes out of \<^verbatim>\<open>mix_audio\<close> empty.
\<close>

theorem lone_mixing_record_dropped:
  assumes "key \<noteq> 0"
  shows "reduce_func key [r] = Inr []
         \<and> (draws 0 < mixin_prob \<longrightarrow> mix_audio draws [r] mixin_prob = Inr [])"
  using assms
  by (simp add: reduce_func_lone mix_audio_def key_func_def window_of_def)

theorem lone_mixing_record_dropped_witness:
  "(1::int) \<noteq> 0 \<and> reduce_func 1 [example_a] = Inr []
   \<and> mix_audio (\<lambda>i. 0) [example_a] 1 = Inr []"
proof -
  have k: "(1::int) \<noteq> 0" by simp
  show ?thesis using lone_mixing_record_dropped [OF k, of example_a "\<lambda>i. 0" 1] by simp
qed

text \<open>Of three records on the mixing path, the first two are mixed and the third is lost.\<close>

lemma mix_audio_three_records:
  "mix_audio (\<lambda>i. 0) [example_a, example_b, example_a] 1 =
     Inr [\<lparr>audio = [4, 2], source_audio = [[1, 2], [3, 0]], label = [1, 1, 0],
           genus = [1, 0], family = [1], order = [1], bg_labels = [1, 0, 1]\<rparr>]"
proof -
  have p: "reduce_func 1 [example_a, example_b] =
     Inr [\<lparr>audio = [4, 2], source_audio = [[1, 2], [3, 0]], label = [1, 1, 0],
           genus = [1, 0], family = [1], order = [1], bg_labels = [1, 0, 1]\<rparr>]"
    using reduce_func_pair [of 1 example_a example_b "[2, 4]" "[6, 0]"] same_shapes_examples
    by (simp add: example_a_def example_b_def)
  have l: "reduce_func 1 [example_a] = Inr []"
    by (simp add: reduce_func_lone)
  show ?thesis
    by (simp add: mix_audio_def key_func_def window_of_def upt_rec numeral_eq_Suc p l)
qed

section \<open>Properties of \<^verbatim>\<open>process_audio\<close>\<close>

lemma process_audio_result:
  fixes example :: single and bits :: nat and u min_gain max_gain :: real
  assumes f: "map_of (features info) ''audio'' = Some (Audio sample_rate)"
    and ws: "0 \<le> window_size_s * sample_rate" and wb: "window_size_s * sample_rate < 2 ^ 31"
    and lb: "int (length (audio example)) < 2 ^ 31"
  defines "window_size \<equiv> window_size_s * sample_rate"
  defines "start_index \<equiv> int bits mod max (int (length (audio example)) - window_size) 1"
  defines "trimmed \<equiv> take (nat window_size) (drop (nat start_index) (audio example))
                       @ replicate (nat window_size - (length (audio example) - nat start_index)) 0"
  defines "scale \<equiv> snd (normalize_audio trimmed (random_uniform_float u min_gain max_gain))"
  shows "process_audio example info window_size_s min_gain max_gain bits u =
           Inr (example\<lparr>audio := map (\<lambda>x. x * scale) trimmed,
                  source_audio :=
                    map (\<lambda>row. map (\<lambda>x. x * scale)
                                  (strided_slice row start_index (start_index + window_size)))
                        (source_audio example)\<rparr>)"
proof -
  have tr: "trim (audio example) (window_size_s * sample_rate) bits
              = Inr (trimmed, start_index, start_index + window_size)"
    using trim_result [OF ws wb lb, of bits]
    by (simp add: trimmed_def start_index_def window_size_def)
  have na: "normalize_audio trimmed (random_uniform_float u min_gain max_gain)
              = (map (\<lambda>x. x * scale) trimmed, scale)"
    unfolding scale_def by (rule normalize_audio_snd)
  show ?thesis
    by (simp only: process_audio_def f option.case feature.case tr sum.case prod.case na Let_def)
qed

text \<open>
  Claim C5.  For an example whose dataset has an audio feature, with a window size and an
  audio length that \<^verbatim>\<open>int32\<close> holds, \<^verbatim>\<open>process_audio\<close> succeeds; with
  \<open>(trimmed, start_index, end_index)\<close> the result of \<^verbatim>\<open>_trim\<close> on the audio and \<open>scale\<close> the
  factor that \<^verbatim>\<open>_normalize_audio\<close> returns for the trimmed audio, the new audio is the
  trimmed audio times \<open>scale\<close>, and every row of the new \<^verbatim>\<open>source_audio\<close> is the slice
  \<open>[start_index:end_index)\<close> of the old row (its samples from \<open>start_index\<close> on, at most
  \<open>window_size\<close> of them), each sample multiplied by \<open>scale\<close>.
\<close>

theorem process_audio_same_crop_and_scale:
  fixes example :: single and bits :: nat and u min_gain max_gain :: real
  assumes f: "map_of (features info) ''audio'' = Some (Audio sample_rate)"
    and ws: "0 \<le> window_size_s * sample_rate" and wb: "window_size_s * sample_rate < 2 ^ 31"
    and lb: "int (length (audio example)) < 2 ^ 31"
  defines "window_size \<equiv> window_size_s * sample_rate"
  defines "start_index \<equiv> int bits mod max (int (length (audio example)) - window_size) 1"
  defines "trimmed \<equiv> take (nat window_size) (drop (nat start_index) (audio example))
                       @ replicate (nat window_size - (length (audio example) - nat start_index)) 0"
  defines "target_gain \<equiv> random_uniform_float u min_gain max_gain"
  defines "scale \<equiv> snd (normalize_audio trimmed target_gain)"
  shows "trim (audio example) window_size bits
           = Inr (trimmed, start_index, start_index + window_size)
       \<and> normalize_audio trimmed target_gain = (map (\<lambda>x. x * scale) trimmed, scale)
       \<and> (trimmed \<noteq> [] \<longrightarrow> scale = target_gain / (Max (set (map abs trimmed)) + 0.01))
       \<and> (\<exists>r. process_audio example info window_size_s min_gain max_gain bits u = Inr r
            \<and> audio r = map (\<lambda>x. x * scale) trimmed
            \<and> length (source_audio r) = length (source_audio example)
            \<and> (\<forall>i < length (source_audio example).
                  source_audio r ! i
                    = map (\<lambda>x. x * scale)
                        (strided_slice (source_audio example ! i)
                           start_index (start_index + window_size))
                  \<and> source_audio r ! i
                    = map (\<lambda>x. x * scale)
                        (take (nat window_size)
                           (drop (nat start_index) (source_audio example ! i)))))"
proof -
  have ws0: "0 \<le> window_size" and wb0: "window_size < 2 ^ 31"
    using ws wb by (simp_all add: window_size_def)
  have s0: "0 \<le> start_index" unfolding start_index_def by simp
  have tr: "trim (audio example) window_size bits
              = Inr (trimmed, start_index, start_index + window_size)"
    unfolding trimmed_def start_index_def using ws0 wb0 lb by (rule trim_result)
  have na: "normalize_audio trimmed target_gain = (map (\<lambda>x. x * scale) trimmed, scale)"
    unfolding scale_def by (rule normalize_audio_snd)
  have sc: "scale = target_gain / (Max (set (map abs trimmed)) + 0.01)" if "trimmed \<noteq> []"
    unfolding scale_def by (simp add: normalize_audio_result [OF that])
  have sl: "strided_slice row start_index (start_index + window_size)
              = take (nat window_size) (drop (nat start_index) row)" for row :: "real list"
    using s0 ws0 by (simp add: strided_slice_nonneg nat_add_distrib)
  have pa: "process_audio example info window_size_s min_gain max_gain bits u =
           Inr (example\<lparr>audio := map (\<lambda>x. x * scale) trimmed,
                  source_audio :=
                    map (\<lambda>row. map (\<lambda>x. x * scale)
                                  (strided_slice row start_index (start_index + window_size)))
                        (source_audio example)\<rparr>)"
    unfolding scale_def target_gain_def trimmed_def start_index_def window_size_def
    using f ws wb lb by (rule process_audio_result)
  have ex: "\<exists>r. process_audio example info window_size_s min_gain max_gain bits u = Inr r
            \<and> audio r = map (\<lambda>x. x * scale) trimmed
            \<and> length (source_audio r) = length (source_audio example)
            \<and> (\<forall>i < length (source_audio example).
                  source_audio r ! i
                    = map (\<lambda>x. x * scale)
                        (strided_slice (source_audio example ! i)
                           start_index (start_index + window_size))
                  \<and> source_audio r ! i
                    = map (\<lambda>x. x * scale)
                        (take (nat window_size)
                           (drop (nat start_index) (source_audio example ! i))))"
    unfolding pa by (simp add: sl)
  from tr na sc ex show ?thesis by blast
qed

lemma features_example: "map_of (features \<lparr>features = [(''audio'', Audio 1)]\<rparr>) ''audio'' = Some (Audio 1)"
  by simp

theorem process_audio_same_crop_and_scale_witness:
  "map_of (features \<lparr>features = [(''audio'', Audio 1)]\<rparr>) ''audio'' = Some (Audio 1)
   \<and> (0::int) \<le> 1 * 1 \<and> (1::int) * 1 < 2 ^ 31 \<and> int (length (audio example_a)) < 2 ^ 31
   \<and> (\<exists>r. process_audio example_a \<lparr>features = [(''audio'', Audio 1)]\<rparr> 1 1 1 1 0 = Inr r
          \<and> audio r = [200 / 201] \<and> source_audio r ! 0 = [200 / 201])"
proof -
  have w: "(0::int) \<le> 1 * 1" and b: "(1::int) * 1 < 2 ^ 31" by simp_all
  have l: "int (length (audio example_a)) < 2 ^ 31" by (simp add: example_a_def)
  have n: "normalize_audio [2] 1 = ([200 / 201], 100 / 201)"
    by (simp add: normalize_audio_def)
  have "\<exists>r. process_audio example_a \<lparr>features = [(''audio'', Audio 1)]\<rparr> 1 1 1 1 0 = Inr r
          \<and> audio r = [200 / 201] \<and> source_audio r ! 0 = [200 / 201]"
    using process_audio_same_crop_and_scale [OF features_example w b l,
        where bits = 1 and u = 0 and min_gain = 1 and max_gain = 1,
        THEN conjunct2, THEN conjunct2, THEN conjunct2]
    by (simp add: example_a_def random_uniform_float_def n) blast
  with features_example w b l show ?thesis by blast
qed

text \<open>With a window of no samples the audio and the source rows come out empty.\<close>

lemma process_audio_empty_window:
  "process_audio example_a \<lparr>features = [(''audio'', Audio 1)]\<rparr> 0 1 1 0 0
     = Inr (example_a\<lparr>audio := [], source_audio := [[]]\<rparr>)"
  using process_audio_result [OF features_example, where window_size_s = 0
      and example = example_a and bits = 0 and u = 0 and min_gain = 1 and max_gain = 1]
  by (simp add: example_a_def strided_slice_def clamp_index_def)



section \<open>Properties of \<^verbatim>\<open>multi_hot\<close>\<close>

lemma map2_map_map: "map2 h (map g l) (map f l) = map (\<lambda>j. h (g j) (f j)) l"
  by (induction l) simp_all

lemma fold_add_rows:
  "fold (\<lambda>row acc. map2 (+) acc row) (map (\<lambda>i. map (f i) [0..<n]) xs) (map g [0..<n])
     = map (\<lambda>j. g j + sum_list (map (\<lambda>i. f i j) xs)) [0..<n]"
proof (induction xs arbitrary: g)
  case Nil
  then show ?case by simp
next
  case (Cons x xs)
  have "map2 (+) (map g [0..<n]) (map (f x) [0..<n]) = map (\<lambda>j. g j + f x j) [0..<n]"
    by (rule map2_map_map)
  then show ?case
    using Cons.IH [of "\<lambda>j. g j + f x j"] by (simp add: add.assoc)
qed

lemma count_ones:
  "sum_list (map (\<lambda>i. if i = c then (1::int) else 0) xs) = int (length (filter (\<lambda>i. i = c) xs))"
  by (induction xs) simp_all

lemma clip_count:
  "min (max (sum_list (map (\<lambda>i. if i = c then (1::int) else 0) xs)) 0) 1
     = (if c \<in> set xs then 1 else 0)"
proof -
  have "length (filter (\<lambda>i. i = c) xs) = 0 \<longleftrightarrow> c \<notin> set xs"
    by (auto simp add: filter_empty_conv)
  then show ?thesis
    unfolding count_ones by (cases "length (filter (\<lambda>i. i = c) xs)") auto
qed

lemma multi_hot_vector_eq:
  "multi_hot_vector indices n = map (\<lambda>j. if int j \<in> set indices then 1 else 0) [0..<n]"
proof -
  have z: "replicate n (0::int) = map (\<lambda>j. 0) [0..<n]"
    by (simp add: map_replicate_const)
  have "reduce_sum_axis0 n (one_hot indices n)
          = map (\<lambda>j. 0 + sum_list (map (\<lambda>i. if i = int j then 1 else 0) indices)) [0..<n]"
    unfolding reduce_sum_axis0_def one_hot_def z by (rule fold_add_rows)
  then show ?thesis
    by (simp add: multi_hot_vector_def clip_by_value_def clip_count)
qed

lemma multi_hot_vector_length: "length (multi_hot_vector indices n) = n"
  by (simp add: multi_hot_vector_eq)

lemma multi_hot_vector_binary: "set (multi_hot_vector indices n) \<subseteq> {0, 1}"
  by (auto simp add: multi_hot_vector_eq)

lemma multi_hot_vector_set_bits:
  assumes "list_all (\<lambda>i. 0 \<le> i \<and> i < int n) indices"
  shows "length (filter (\<lambda>b. b = 1) (multi_hot_vector indices n)) = card (set indices)"
proof -
  have "length (filter (\<lambda>b. b = 1) (multi_hot_vector indices n))
          = length (filter (\<lambda>j. int j \<in> set indices) [0..<n])"
    by (simp add: multi_hot_vector_eq filter_map comp_def)
  also have "\<dots> = card (set (filter (\<lambda>j. int j \<in> set indices) [0..<n]))"
    by (rule distinct_card [symmetric]) simp
  also have "\<dots> = card (int ` set (filter (\<lambda>j. int j \<in> set indices) [0..<n]))"
    by (simp add: card_image)
  also have "int ` set (filter (\<lambda>j. int j \<in> set indices) [0..<n]) = set indices"
  proof
    show "int ` set (filter (\<lambda>j. int j \<in> set indices) [0..<n]) \<subseteq> set indices"
      by auto
    show "set indices \<subseteq> int ` set (filter (\<lambda>j. int j \<in> set indices) [0..<n])"
    proof
      fix i assume i: "i \<in> set indices"
      with assms have "0 \<le> i" and "i < int n" by (simp_all add: list_all_iff)
      then have "nat i < n" and "int (nat i) = i" by simp_all
      with i show "i \<in> int ` set (filter (\<lambda>j. int j \<in> set indices) [0..<n])"
        by (intro image_eqI [of _ _ "nat i"]) simp_all
    qed
  qed
  finally show ?thesis .
qed

lemma multi_hot_feature_other:
  "(\<And>n. f \<noteq> Sequence (ClassLabel n)) \<Longrightarrow> multi_hot_feature ex (k, f) = Inr ex"
  by (cases "(ex, (k, f))" rule: multi_hot_feature.cases) auto

lemma class_indices_cong: "ex' k = ex k \<Longrightarrow> class_indices ex' k n = class_indices ex k n"
  by (simp add: class_indices_def)

lemma conforms_feature_cong:
  "ex' (fst item) = ex (fst item) \<Longrightarrow> conforms_feature ex' item = conforms_feature ex item"
  by (cases "(ex, item)" rule: conforms_feature.cases) (auto simp add: class_indices_def)

lemma multi_hot_loop_result:
  assumes "distinct (map fst fs)" and "list_all (conforms_feature ex) fs"
  shows "\<exists>r. multi_hot_loop ex fs = Inr r
           \<and> (\<forall>key. (\<forall>n. (key, Sequence (ClassLabel n)) \<notin> set fs) \<longrightarrow> r key = ex key)
           \<and> (\<forall>key n. (key, Sequence (ClassLabel n)) \<in> set fs \<longrightarrow>
                 (\<exists>xs. ex key = Some (TInt1 xs) \<and> r key = Some (TInt1 (multi_hot_vector xs n))))"
  using assms
proof (induction fs arbitrary: ex)
  case Nil
  then show ?case by simp
next
  case (Cons item fs)
  obtain k f where item: "item = (k, f)" by (cases item)
  have dist: "distinct (map fst fs)" and knew: "k \<notin> fst ` set fs"
    using Cons.prems(1) by (simp_all add: item)
  have conf: "list_all (conforms_feature ex) fs" and confk: "conforms_feature ex (k, f)"
    using Cons.prems(2) by (simp_all add: item)
  show ?case
  proof (cases "\<exists>n. f = Sequence (ClassLabel n)")
    case False
    then have step: "multi_hot_feature ex (k, f) = Inr ex"
      by (intro multi_hot_feature_other) blast
    from Cons.IH [OF dist conf] obtain r where r: "multi_hot_loop ex fs = Inr r"
      and frame: "\<forall>key. (\<forall>n. (key, Sequence (ClassLabel n)) \<notin> set fs) \<longrightarrow> r key = ex key"
      and enc: "\<forall>key n. (key, Sequence (ClassLabel n)) \<in> set fs \<longrightarrow>
                 (\<exists>xs. ex key = Some (TInt1 xs) \<and> r key = Some (TInt1 (multi_hot_vector xs n)))"
      by blast
    have "multi_hot_loop ex (item # fs) = Inr r"
      by (simp add: item step r)
    moreover have "\<forall>key. (\<forall>n. (key, Sequence (ClassLabel n)) \<notin> set (item # fs)) \<longrightarrow> r key = ex key"
      using frame by (simp add: item)
    moreover have "\<forall>key n. (key, Sequence (ClassLabel n)) \<in> set (item # fs) \<longrightarrow>
                 (\<exists>xs. ex key = Some (TInt1 xs) \<and> r key = Some (TInt1 (multi_hot_vector xs n)))"
      using enc False by (auto simp add: item)
    ultimately show ?thesis by blast
  next
    case True
    then obtain n where f: "f = Sequence (ClassLabel n)" by blast
    from confk obtain xs where xs: "ex k = Some (TInt1 xs)"
      by (auto simp add: f class_indices_def split: option.splits tensor.splits)
    let ?ex' = "ex(k \<mapsto> TInt1 (multi_hot_vector xs n))"
    have step: "multi_hot_feature ex (k, f) = Inr ?ex'"
      by (simp add: f xs)
    have same: "?ex' k' = ex k'" if "k' \<in> fst ` set fs" for k'
      using that knew by auto
    have conf': "list_all (conforms_feature ?ex') fs"
      unfolding list_all_iff
    proof
      fix it assume it: "it \<in> set fs"
      then have "?ex' (fst it) = ex (fst it)" by (intro same) simp
      then have "conforms_feature ?ex' it = conforms_feature ex it"
        by (rule conforms_feature_cong)
      with conf it show "conforms_feature ?ex' it" by (simp add: list_all_iff)
    qed
    from Cons.IH [OF dist conf'] obtain r where r: "multi_hot_loop ?ex' fs = Inr r"
      and frame: "\<forall>key. (\<forall>n. (key, Sequence (ClassLabel n)) \<notin> set fs) \<longrightarrow> r key = ?ex' key"
      and enc: "\<forall>key n. (key, Sequence (ClassLabel n)) \<in> set fs \<longrightarrow>
                 (\<exists>xs. ?ex' key = Some (TInt1 xs) \<and> r key = Some (TInt1 (multi_hot_vector xs n)))"
      by blast
    have a: "multi_hot_loop ex (item # fs) = Inr r"
      by (simp add: item step r)
    have b: "\<forall>key. (\<forall>n. (key, Sequence (ClassLabel n)) \<notin> set (item # fs)) \<longrightarrow> r key = ex key"
    proof (intro allI impI)
      fix key assume h: "\<forall>n. (key, Sequence (ClassLabel n)) \<notin> set (item # fs)"
      then have "key \<noteq> k" by (auto simp add: item f)
      moreover from h have "r key = ?ex' key" using frame by simp
      ultimately show "r key = ex key" by simp
    qed
    have c: "\<forall>key m. (key, Sequence (ClassLabel m)) \<in> set (item # fs) \<longrightarrow>
                 (\<exists>xs. ex key = Some (TInt1 xs) \<and> r key = Some (TInt1 (multi_hot_vector xs m)))"
    proof (intro allI impI)
      fix key m assume h: "(key, Sequence (ClassLabel m)) \<in> set (item # fs)"
      show "\<exists>xs. ex key = Some (TInt1 xs) \<and> r key = Some (TInt1 (multi_hot_vector xs m))"
      proof (cases "(key, Sequence (ClassLabel m)) \<in> set fs")
        case True
        then have "key \<in> fst ` set fs" by force
        then have eq: "?ex' key = ex key" by (rule same)
        from enc True obtain ys where ys: "?ex' key = Some (TInt1 ys)"
          and rk: "r key = Some (TInt1 (multi_hot_vector ys m))" by blast
        have "ex key = Some (TInt1 ys)" using ys unfolding eq .
        with rk show ?thesis by blast
      next
        case False
        with h have km: "key = k" "m = n" by (simp_all add: item f)
        have "\<forall>n. (k, Sequence (ClassLabel n)) \<notin> set fs"
          using knew by force
        with frame have "r k = ?ex' k" by blast
        then show ?thesis by (simp add: km xs)
      qed
    qed
    from a b c show ?thesis by blast
  qed
qed

lemma conforms_feature_after_del:
  assumes "conforms_feature ex item"
    and "\<And>k. k \<noteq> ''filename'' \<Longrightarrow> k \<noteq> ''label_str'' \<Longrightarrow> ex' k = ex k"
  shows "conforms_feature ex' item"
  using assms
  by (cases "(ex, item)" rule: conforms_feature.cases) (auto simp add: class_indices_def)

text \<open>
  Claim C6.  For every raw example that conforms to the features of its dataset,
  \<^verbatim>\<open>multi_hot\<close> succeeds; its result has no \<^verbatim>\<open>filename\<close> and no \<^verbatim>\<open>label_str\<close>, keeps the
  audio, and has \<^verbatim>\<open>source_audio\<close> equal to the audio under one leading axis of size one; and
  every field declared as a sequence of class labels holds a vector as long as the number of
  classes, with entries \<open>0\<close> or \<open>1\<close>, in which the number of ones is the number of distinct
  classes of the input sequence.
\<close>

theorem multi_hot_encoding:
  assumes "conforms example info"
  shows "\<exists>r. multi_hot example info = Inr r
           \<and> r ''filename'' = None \<and> r ''label_str'' = None
           \<and> (\<exists>a. example ''audio'' = Some (TFloat1 a) \<and> r ''audio'' = Some (TFloat1 a)
                  \<and> r ''source_audio'' = Some (TFloat2 [a]))
           \<and> (\<forall>key n. (key, Sequence (ClassLabel n)) \<in> set (features info) \<longrightarrow>
                 (\<exists>indices v. example key = Some (TInt1 indices) \<and> r key = Some (TInt1 v)
                    \<and> length v = n \<and> set v \<subseteq> {0, 1}
                    \<and> length (filter (\<lambda>b. b = 1) v) = card (set indices)))"
proof -
  let ?fs = "features info"
  from assms have dist: "distinct (map fst ?fs)"
    and fn: "example ''filename'' \<noteq> None" and ls: "example ''label_str'' \<noteq> None"
    and conf: "list_all (conforms_feature example) ?fs"
    by (simp_all add: conforms_def)
  from assms obtain a where a: "example ''audio'' = Some (TFloat1 a)"
    by (auto simp add: conforms_def split: option.splits tensor.splits)
  let ?ex1 = "example(''filename'' := None)"
  let ?ex2 = "?ex1(''label_str'' := None)"
  have d1: "del_item example ''filename'' = Inr ?ex1"
    using fn by (auto simp add: del_item_def)
  have d2: "del_item ?ex1 ''label_str'' = Inr ?ex2"
    using ls by (auto simp add: del_item_def)
  have conf2: "list_all (conforms_feature ?ex2) ?fs"
    unfolding list_all_iff
  proof
    fix it assume "it \<in> set ?fs"
    with conf have "conforms_feature example it" by (simp add: list_all_iff)
    then show "conforms_feature ?ex2 it"
      by (rule conforms_feature_after_del) simp
  qed
  from multi_hot_loop_result [OF dist conf2] obtain r3
    where r3: "multi_hot_loop ?ex2 ?fs = Inr r3"
      and frame: "\<forall>key. (\<forall>n. (key, Sequence (ClassLabel n)) \<notin> set ?fs) \<longrightarrow> r3 key = ?ex2 key"
      and enc: "\<forall>key n. (key, Sequence (ClassLabel n)) \<in> set ?fs \<longrightarrow>
                 (\<exists>xs. ?ex2 key = Some (TInt1 xs) \<and> r3 key = Some (TInt1 (multi_hot_vector xs n)))"
    by blast
  have seq: "key \<noteq> ''filename'' \<and> key \<noteq> ''label_str'' \<and> key \<noteq> ''source_audio''
               \<and> class_indices example key n"
    if "(key, Sequence (ClassLabel n)) \<in> set ?fs" for key n
  proof -
    from conf that have "conforms_feature example (key, Sequence (ClassLabel n))"
      unfolding list_all_iff by blast
    then show ?thesis by simp
  qed
  have noseq: "\<forall>n. (key, Sequence (ClassLabel n)) \<notin> set ?fs"
    if "key = ''filename'' \<or> key = ''label_str'' \<or> key = ''audio''" for key
  proof (intro allI notI)
    fix n assume "(key, Sequence (ClassLabel n)) \<in> set ?fs"
    from seq [OF this] that a show False
      by (auto simp add: class_indices_def)
  qed
  have r3_audio: "r3 ''audio'' = Some (TFloat1 a)"
    using frame noseq [of "''audio''"] a by simp
  have r3_fn: "r3 ''filename'' = None"
    using frame noseq [of "''filename''"] by simp
  have r3_ls: "r3 ''label_str'' = None"
    using frame noseq [of "''label_str''"] by simp
  let ?r = "r3(''source_audio'' \<mapsto> TFloat2 [a])"
  have res: "multi_hot example info = Inr ?r"
    by (simp add: multi_hot_def d1 d2 r3 r3_audio)
  have p1: "?r ''filename'' = None" and p2: "?r ''label_str'' = None"
    using r3_fn r3_ls by simp_all
  have p3: "\<exists>a. example ''audio'' = Some (TFloat1 a) \<and> ?r ''audio'' = Some (TFloat1 a)
                  \<and> ?r ''source_audio'' = Some (TFloat2 [a])"
    using a r3_audio by simp
  have p4: "\<forall>key n. (key, Sequence (ClassLabel n)) \<in> set ?fs \<longrightarrow>
                 (\<exists>indices v. example key = Some (TInt1 indices) \<and> ?r key = Some (TInt1 v)
                    \<and> length v = n \<and> set v \<subseteq> {0, 1}
                    \<and> length (filter (\<lambda>b. b = 1) v) = card (set indices))"
  proof (intro allI impI)
    fix key n assume h: "(key, Sequence (ClassLabel n)) \<in> set ?fs"
    from seq [OF h] have k: "key \<noteq> ''filename''" "key \<noteq> ''label_str''" "key \<noteq> ''source_audio''"
      and ci: "class_indices example key n" by simp_all
    from enc h obtain xs where xs: "?ex2 key = Some (TInt1 xs)"
      and rk: "r3 key = Some (TInt1 (multi_hot_vector xs n))" by blast
    from xs k have exk: "example key = Some (TInt1 xs)" by simp
    with ci have range: "list_all (\<lambda>i. 0 \<le> i \<and> i < int n) xs"
      by (simp add: class_indices_def)
    have "?r key = Some (TInt1 (multi_hot_vector xs n))"
      using rk k by simp
    with exk multi_hot_vector_length [of xs n] multi_hot_vector_binary [of xs n]
      multi_hot_vector_set_bits [OF range]
    show "\<exists>indices v. example key = Some (TInt1 indices) \<and> ?r key = Some (TInt1 v)
                    \<and> length v = n \<and> set v \<subseteq> {0, 1}
                    \<and> length (filter (\<lambda>b. b = 1) v) = card (set indices)"
      by blast
  qed
  from res p1 p2 p3 p4 show ?thesis by blast
qed

lemma conforms_raw_record: "conforms raw_record raw_info"
  by (simp add: conforms_def raw_record_def raw_info_def class_indices_def)


theorem multi_hot_encoding_witness:
  "conforms raw_record raw_info
   \<and> (\<exists>r. multi_hot raw_record raw_info = Inr r
          \<and> r ''filename'' = None \<and> r ''label_str'' = None
          \<and> r ''source_audio'' = Some (TFloat2 [[2, 4]])
          \<and> (\<exists>v. r ''bg_labels'' = Some (TInt1 v) \<and> length v = 4 \<and> set v \<subseteq> {0, 1}
                 \<and> length (filter (\<lambda>b. b = 1) v) = 2))"
proof -
  from multi_hot_encoding [OF conforms_raw_record] obtain r
    where r: "multi_hot raw_record raw_info = Inr r"
      and f: "r ''filename'' = None" and l: "r ''label_str'' = None"
      and a: "\<exists>a. raw_record ''audio'' = Some (TFloat1 a) \<and> r ''audio'' = Some (TFloat1 a)
                  \<and> r ''source_audio'' = Some (TFloat2 [a])"
      and e: "\<forall>key n. (key, Sequence (ClassLabel n)) \<in> set (features raw_info) \<longrightarrow>
                 (\<exists>indices v. raw_record key = Some (TInt1 indices) \<and> r key = Some (TInt1 v)
                    \<and> length v = n \<and> set v \<subseteq> {0, 1}
                    \<and> length (filter (\<lambda>b. b = 1) v) = card (set indices))"
    by blast
  have s: "r ''source_audio'' = Some (TFloat2 [[2, 4]])"
    using a by (auto simp add: raw_record_def)
  have m: "(''bg_labels'', Sequence (ClassLabel 4)) \<in> set (features raw_info)"
    by (simp add: raw_info_def)
  have "set [3, 0, 3 :: int] = {0, 3}"
    by auto
  then have c: "card (set [3, 0, 3 :: int]) = 2"
    by simp
  from e m obtain indices v where i: "raw_record ''bg_labels'' = Some (TInt1 indices)"
    and v: "r ''bg_labels'' = Some (TInt1 v)" "length v = 4" "set v \<subseteq> {0, 1}"
      "length (filter (\<lambda>b. b = 1) v) = card (set indices)"
    by blast
  from i have "indices = [3, 0, 3]"
    by (simp add: raw_record_def)
  with v c have "\<exists>v. r ''bg_labels'' = Some (TInt1 v) \<and> length v = 4 \<and> set v \<subseteq> {0, 1}
                 \<and> length (filter (\<lambda>b. b = 1) v) = 2"
    by auto
  with r f l s conforms_raw_record show ?thesis by blast
qed

section \<open>Properties of filtering and scrubbing\<close>

lemma count_list_filter_kept: "P x \<Longrightarrow> count_list (filter P xs) x = count_list xs x"
  by (induction xs) auto


lemma scrub_unchanged:
  assumes "(h ! r) key = Some (PList xs)" and "values = [] \<or> xs = []"
  shows "scrub h r key values = Inr (h, r)"
  using assms by (auto simp add: scrub_def)

lemma scrub_result:
  assumes "(h ! r) key = Some (PList xs)" and "values \<noteq> []" and "xs \<noteq> []"
    and "list_all (\<lambda>val. isinstance val (type_of (xs ! 0))) values"
  shows "scrub h r key values =
           Inr ((h @ [h ! r])[length h := (h ! r)(key \<mapsto> PList (filter (\<lambda>x. \<not> py_in x values) xs))],
                length h)"
  using assms by (simp add: scrub_def copy_def setitem_def Let_def)

text \<open>
  Claim C7.  Let the dictionary at \<open>feature_dict\<close> hold a list under \<open>key\<close>.  When the list
  or \<open>values\<close> is empty, \<^verbatim>\<open>scrub\<close> returns the same dictionary and leaves the heap as it
  is.  When neither is empty and every value is an instance of the type of the first entry of
  the list, \<^verbatim>\<open>scrub\<close> returns a new dictionary, allocated at a fresh reference; every
  dictionary that existed before, the input among them, is as it was; the new dictionary
  agrees with the input on every other key, and under \<open>key\<close> it holds the entries of the list
  that are not in \<open>values\<close>, in their order and as often as they occur in the list.
\<close>

theorem scrub_copy:
  fixes h :: heap and "values" :: "pyval list"
  assumes alloc: "feature_dict < length h"
    and field: "(h ! feature_dict) key = Some (PList xs)"
  defines "kept \<equiv> filter (\<lambda>x. \<not> py_in x values) xs"
  shows "(values = [] \<or> xs = [] \<longrightarrow> scrub h feature_dict key values = Inr (h, feature_dict))
       \<and> (values \<noteq> [] \<and> xs \<noteq> [] \<and> list_all (\<lambda>val. isinstance val (type_of (xs ! 0))) values \<longrightarrow>
            (\<exists>h' new. scrub h feature_dict key values = Inr (h', new)
               \<and> new = length h \<and> new \<noteq> feature_dict \<and> length h' = Suc (length h)
               \<and> (\<forall>r < length h. h' ! r = h ! r)
               \<and> h' ! new = (h ! feature_dict)(key \<mapsto> PList kept)
               \<and> (\<forall>k. k \<noteq> key \<longrightarrow> (h' ! new) k = (h ! feature_dict) k)
               \<and> subseq kept xs
               \<and> (\<forall>x \<in> set kept. \<not> py_in x values)
               \<and> (\<forall>x. \<not> py_in x values \<longrightarrow> count_list kept x = count_list xs x)))"
proof (intro conjI impI)
  assume "values = [] \<or> xs = []"
  with field show "scrub h feature_dict key values = Inr (h, feature_dict)"
    by (rule scrub_unchanged)
next
  assume a: "values \<noteq> [] \<and> xs \<noteq> [] \<and> list_all (\<lambda>val. isinstance val (type_of (xs ! 0))) values"
  let ?h' = "(h @ [h ! feature_dict])[length h := (h ! feature_dict)(key \<mapsto> PList kept)]"
  have res: "scrub h feature_dict key values = Inr (?h', length h)"
    unfolding kept_def using field a by (intro scrub_result) simp_all
  have p1: "length h \<noteq> feature_dict" using alloc by simp
  have p2: "length ?h' = Suc (length h)" by simp
  have p3: "\<forall>r < length h. ?h' ! r = h ! r"
    by (simp add: nth_append)
  have p4: "?h' ! length h = (h ! feature_dict)(key \<mapsto> PList kept)"
    by simp
  have p5: "\<forall>k. k \<noteq> key \<longrightarrow> (?h' ! length h) k = (h ! feature_dict) k"
    by simp
  have p6: "subseq kept xs"
    unfolding kept_def by simp
  have p7: "\<forall>x \<in> set kept. \<not> py_in x values"
    unfolding kept_def by simp
  have p8: "\<forall>x. \<not> py_in x values \<longrightarrow> count_list kept x = count_list xs x"
    unfolding kept_def by (simp add: count_list_filter_kept)
  from res p1 p2 p3 p4 p5 p6 p7 p8
  show "\<exists>h' new. scrub h feature_dict key values = Inr (h', new)
               \<and> new = length h \<and> new \<noteq> feature_dict \<and> length h' = Suc (length h)
               \<and> (\<forall>r < length h. h' ! r = h ! r)
               \<and> h' ! new = (h ! feature_dict)(key \<mapsto> PList kept)
               \<and> (\<forall>k. k \<noteq> key \<longrightarrow> (h' ! new) k = (h ! feature_dict) k)
               \<and> subseq kept xs
               \<and> (\<forall>x \<in> set kept. \<not> py_in x values)
               \<and> (\<forall>x. \<not> py_in x values \<longrightarrow> count_list kept x = count_list xs x)"
    by blast
qed

theorem scrub_copy_witness:
  "0 < length [recording]
   \<and> ([recording] ! 0) ''bg_species''
       = Some (PList [PStr ''x'', PStr ''y'', PStr ''x'', PStr ''z'', PStr ''y''])
   \<and> scrub [recording] 0 ''bg_species'' [] = Inr ([recording], 0)
   \<and> (\<exists>h' new. scrub [recording] 0 ''bg_species'' [PStr ''x''] = Inr (h', new)
          \<and> new = 1 \<and> h' ! 0 = recording
          \<and> h' ! new = recording(''bg_species'' \<mapsto> PList [PStr ''y'', PStr ''z'', PStr ''y'']))"
proof -
  have a: "0 < length [recording]" by simp
  have f: "([recording] ! 0) ''bg_species''
       = Some (PList [PStr ''x'', PStr ''y'', PStr ''x'', PStr ''z'', PStr ''y''])"
    by (simp add: recording_def)
  have e: "scrub [recording] 0 ''bg_species'' [] = Inr ([recording], 0)"
    using scrub_copy [OF a f, of "[]", THEN conjunct1] by simp
  have k: "filter (\<lambda>x. \<not> py_in x [PStr ''x''])
             [PStr ''x'', PStr ''y'', PStr ''x'', PStr ''z'', PStr ''y'']
           = [PStr ''y'', PStr ''z'', PStr ''y'']"
    by (simp add: py_in_def)
  have t: "[PStr ''x''] \<noteq> [] \<and> [PStr ''x'', PStr ''y'', PStr ''x'', PStr ''z'', PStr ''y''] \<noteq> []
     \<and> list_all (\<lambda>val. isinstance val
          (type_of ([PStr ''x'', PStr ''y'', PStr ''x'', PStr ''z'', PStr ''y''] ! 0))) [PStr ''x'']"
    by (simp add: isinstance_def)
  from scrub_copy [OF a f, of "[PStr ''x'']", THEN conjunct2, rule_format, OF t]
  obtain h' new where "scrub [recording] 0 ''bg_species'' [PStr ''x''] = Inr (h', new)"
    and "new = length [recording]" and "\<forall>r < length [recording]. h' ! r = [recording] ! r"
    and "h' ! new = ([recording] ! 0)(''bg_species'' \<mapsto> PList (filter (\<lambda>x. \<not> py_in x [PStr ''x''])
             [PStr ''x'', PStr ''y'', PStr ''x'', PStr ''z'', PStr ''y'']))"
    by blast
  then have "\<exists>h' new. scrub [recording] 0 ''bg_species'' [PStr ''x''] = Inr (h', new)
          \<and> new = 1 \<and> h' ! 0 = recording
          \<and> h' ! new = recording(''bg_species'' \<mapsto> PList [PStr ''y'', PStr ''z'', PStr ''y''])"
    unfolding k by simp
  with a f e show ?thesis by blast
qed






end
